theory Spec2Isabelle
  imports Main "HOL-Library.Sublist"
begin

section \<open>TravelBloom search and recommendation pipeline\<close>

text \<open>
  A shallow embedding of \<^verbatim>\<open>travel_recommendation.js\<close>: the query normaliser, the tiered
  search of \<^verbatim>\<open>handleSearch\<close>, the card renderer, the time-zone table, the interval-driven
  clock and the city-to-country inference.

  Strings are \<^typ>\<open>string\<close>; a character stands for the UTF-16 code unit with the same
  code, so the model covers every string whose code units are below 256 (Latin-1). On that
  range \<^verbatim>\<open>toLowerCase\<close> works unit by unit and stays inside the range.
\<close>

subsection \<open>Strings\<close>

definition code_unit :: "char \<Rightarrow> nat" where
  "code_unit c = of_char c"

text \<open>The class \<^verbatim>\<open>\s\<close> of a regular expression, which is also what \<^verbatim>\<open>trim\<close> removes:
  tab, line feed, vertical tab, form feed, carriage return, space and no-break space.\<close>

definition is_space :: "char \<Rightarrow> bool" where
  "is_space c = (code_unit c \<in> {9, 10, 11, 12, 13, 32, 160})"

text \<open>The class \<^verbatim>\<open>\w\<close>: ASCII letters, digits and the underscore.\<close>

definition is_word :: "char \<Rightarrow> bool" where
  "is_word c =
     ((65 \<le> code_unit c \<and> code_unit c \<le> 90) \<or>
      (97 \<le> code_unit c \<and> code_unit c \<le> 122) \<or>
      (48 \<le> code_unit c \<and> code_unit c \<le> 57) \<or> code_unit c = 95)"

text \<open>\<^verbatim>\<open>toLowerCase\<close> on one code unit: A-Z, and the Latin-1 capitals 0xC0-0xDE without the
  multiplication sign 0xD7, move up by 32.\<close>

definition lower_char :: "char \<Rightarrow> char" where
  "lower_char c =
     (if (65 \<le> code_unit c \<and> code_unit c \<le> 90) \<or>
         (192 \<le> code_unit c \<and> code_unit c \<le> 222 \<and> code_unit c \<noteq> 215)
      then char_of (code_unit c + 32) else c)"

definition toLowerCase :: "string \<Rightarrow> string" where
  "toLowerCase s = map lower_char s"

definition trim :: "string \<Rightarrow> string" where
  "trim s = rev (dropWhile is_space (rev (dropWhile is_space s)))"

text \<open>\<^verbatim>\<open>s.includes(k)\<close>: \<open>k\<close> occurs in \<open>s\<close> as a contiguous run.\<close>

fun includes_str :: "string \<Rightarrow> string \<Rightarrow> bool" where
  "includes_str [] k = (k = [])"
| "includes_str (c # cs) k = (prefix k (c # cs) \<or> includes_str cs k)"

text \<open>\<^verbatim>\<open>s.split(',')\<close> for a one-character separator: the segments between the separators,
  never an empty list.\<close>

fun split :: "char \<Rightarrow> string \<Rightarrow> string list" where
  "split sep [] = [[]]"
| "split sep (c # cs) =
     (if c = sep then [] # split sep cs
      else (case split sep cs of
              seg # segs \<Rightarrow> (c # seg) # segs
            | [] \<Rightarrow> [[c]]))"

text \<open>\<^verbatim>\<open>parts.join(sep)\<close>.\<close>

fun join :: "string \<Rightarrow> string list \<Rightarrow> string" where
  "join sep [] = []"
| "join sep [x] = x"
| "join sep (x # y # ys) = x @ sep @ join sep (y # ys)"

subsection \<open>Query normalisation\<close>

text \<open>The characters that \<^verbatim>\<open>replace(/[^\w\s-]/g, '')\<close> keeps.\<close>

definition kept :: "char \<Rightarrow> bool" where
  "kept c = (is_word c \<or> is_space c \<or> c = CHR ''-'')"

definition normalizeKeyword :: "string \<Rightarrow> string" where
  "normalizeKeyword text =
     (let t = toLowerCase text;
          t = trim (filter kept t)
      in if t = ''beaches'' then ''beach''
         else if t = ''temples'' then ''temple''
         else if t = ''countries'' then ''country''
         else t)"

subsection \<open>JavaScript values\<close>

text \<open>A property that may be missing is an \<^typ>\<open>'a option\<close>, \<open>None\<close> standing for the
  \<^verbatim>\<open>undefined\<close> of an absent property (for a time zone, the \<^verbatim>\<open>null\<close> of the lookup). The
  helpers below are the idioms the source applies to such values.\<close>

text \<open>\<^verbatim>\<open>x || ''\<close> on a string property.\<close>

definition or_empty_string :: "string option \<Rightarrow> string" where
  "or_empty_string x = (case x of None \<Rightarrow> [] | Some v \<Rightarrow> v)"

text \<open>\<^verbatim>\<open>x || dflt\<close> on a string property: the empty string is falsy as well.\<close>

definition or_default :: "string option \<Rightarrow> string \<Rightarrow> string" where
  "or_default x dflt = (case x of None \<Rightarrow> dflt | Some v \<Rightarrow> if v = [] then dflt else v)"

text \<open>\<^verbatim>\<open>x || []\<close> and \<^verbatim>\<open>Array.isArray(x) ? x : []\<close> on an array property.\<close>

definition or_empty_array :: "'a list option \<Rightarrow> 'a list" where
  "or_empty_array x = (case x of None \<Rightarrow> [] | Some v \<Rightarrow> v)"

text \<open>Truthiness of a string value.\<close>

definition truthy :: "string option \<Rightarrow> bool" where
  "truthy x = (case x of None \<Rightarrow> False | Some v \<Rightarrow> v \<noteq> [])"

text \<open>A template literal \<^verbatim>\<open>${x}\<close> of a string that may be undefined.\<close>

definition template :: "string option \<Rightarrow> string" where
  "template x = (case x of None \<Rightarrow> ''undefined'' | Some v \<Rightarrow> v)"

subsection \<open>Data model\<close>

record place =
  p_name :: "string option"
  p_description :: "string option"
  p_imageUrl :: "string option"

record country =
  c_name :: "string option"
  c_cities :: "place list option"

record dataset =
  beaches :: "place list option"
  temples :: "place list option"
  countries :: "country list option"

subsection \<open>Time zones and the clock of the runtime\<close>

text \<open>What \<^verbatim>\<open>map[key] || null\<close> can yield on the three-entry object literal: one of its
  own strings, or, for the keys \<^verbatim>\<open>constructor\<close> and \<^verbatim>\<open>__proto__\<close>, a value inherited from
  \<^verbatim>\<open>Object.prototype\<close>, which is truthy and names no time zone.\<close>

datatype tz_value = TzName string | Inherited

text \<open>\<^verbatim>\<open>new Date().toLocaleTimeString('en-US', {timeZone, ...})\<close> is the runtime's: a
  \<open>clock\<close> maps a time-zone name to the formatted current time, or to \<open>None\<close> where the
  runtime rejects the name with a \<^verbatim>\<open>RangeError\<close>.\<close>

type_synonym clock = "string \<Rightarrow> string option"

datatype js_error = RangeError

datatype completion = Returned | Threw js_error

text \<open>The option \<^verbatim>\<open>timeZone\<close> is converted to a string and must name a zone: \<^verbatim>\<open>null\<close> and an
  inherited object do not.\<close>

definition toLocaleTimeString :: "clock \<Rightarrow> tz_value option \<Rightarrow> js_error + string" where
  "toLocaleTimeString clk timeZone =
     (case timeZone of
        None \<Rightarrow> Inl RangeError
      | Some Inherited \<Rightarrow> Inl RangeError
      | Some (TzName z) \<Rightarrow> (case clk z of None \<Rightarrow> Inl RangeError | Some t \<Rightarrow> Inr t))"

text \<open>Truthiness of a time-zone value.\<close>

definition tz_truthy :: "tz_value option \<Rightarrow> bool" where
  "tz_truthy tz =
     (case tz of None \<Rightarrow> False | Some (TzName z) \<Rightarrow> z \<noteq> [] | Some Inherited \<Rightarrow> True)"

definition getTimeZoneForCountry :: "string option \<Rightarrow> tz_value option" where
  "getTimeZoneForCountry countryName =
     (let key = trim (toLowerCase (or_empty_string countryName))
      in if key = ''australia'' then Some (TzName ''Australia/Sydney'')
         else if key = ''japan'' then Some (TzName ''Asia/Tokyo'')
         else if key = ''brazil'' then Some (TzName ''America/Sao_Paulo'')
         else if key = ''constructor'' \<or> key = ''__proto__'' then Some Inherited
         else None)"

text \<open>\<^verbatim>\<open>Array.from(new Set(xs))\<close>: the first occurrence of each element, in order.\<close>

fun unique :: "'a list \<Rightarrow> 'a list" where
  "unique [] = []"
| "unique (x # xs) = x # unique (filter (\<lambda>y. y \<noteq> x) xs)"

definition getTimeZonesForCountries ::
  "string option list \<Rightarrow> (string \<times> tz_value option) list" where
  "getTimeZonesForCountries countryNames =
     (let names = unique (filter (\<lambda>n. n \<noteq> [])
                    (map (\<lambda>n. trim (or_empty_string n)) countryNames))
      in filter (\<lambda>x. tz_truthy (snd x))
           (map (\<lambda>name. (name, getTimeZoneForCountry (Some name))) names))"

subsection \<open>Application state and the page\<close>

text \<open>A rendered result card: the image's \<^verbatim>\<open>alt\<close> and \<^verbatim>\<open>src\<close>, and the values assigned to
  the text of the badge, the title and the body paragraph.\<close>

record card =
  img_alt :: string
  img_src :: string
  badge :: "string option"
  title :: string
  body :: string

text \<open>The text of \<^verbatim>\<open>resultsMeta\<close>: empty, or the line built from the category text and
  the number of matches (the template joins them with a bullet, which is outside Latin-1, so
  the two parts are kept apart).\<close>

datatype meta = NoMeta | Meta string nat

datatype page = Home | About | Contact

text \<open>The callback a repeating timer holds, with the values its closure captured.\<close>

datatype task =
    SingleTick "string option" "tz_value option"
  | MultiTick "(string \<times> tz_value option) list"

text \<open>The two module variables, the browser's table of active intervals with the last handle
  it issued, and the elements of the page the script writes to. A \<^verbatim>\<open>display\<close> style is a
  boolean (\<open>True\<close> for \<^verbatim>\<open>block\<close>, \<open>False\<close> for \<^verbatim>\<open>none\<close>); the element \<^verbatim>\<open>timeBox\<close> may be
  missing from the page.\<close>

record state =
  apiData :: "dataset option"
  clockIntervalId :: "nat option"
  timers :: "(nat \<times> task) list"
  last_handle :: nat
  searchInput :: string
  results :: "card list"
  emptyState_display :: bool
  emptyState_text :: string
  resultsHeader_display :: bool
  resultsTitle :: string
  resultsMeta :: meta
  timeBox :: "(bool \<times> string) option"
  activePage :: page

text \<open>\<^verbatim>\<open>setInterval\<close> issues a fresh handle greater than zero; \<^verbatim>\<open>clearInterval\<close> removes the
  interval with the given handle.\<close>

definition setInterval :: "task \<Rightarrow> state \<Rightarrow> nat \<times> state" where
  "setInterval f s =
     (let h = Suc (last_handle s)
      in (h, s\<lparr>timers := timers s @ [(h, f)], last_handle := h\<rparr>))"

definition clearInterval :: "nat \<Rightarrow> state \<Rightarrow> state" where
  "clearInterval h s = s\<lparr>timers := filter (\<lambda>x. fst x \<noteq> h) (timers s)\<rparr>"

definition stopClock :: "state \<Rightarrow> state" where
  "stopClock s =
     (case clockIntervalId s of
        None \<Rightarrow> s
      | Some h \<Rightarrow> if h = 0 then s else (clearInterval h s)\<lparr>clockIntervalId := None\<rparr>)"

definition setTimeBox :: "string option \<Rightarrow> state \<Rightarrow> state" where
  "setTimeBox message s =
     (case timeBox s of
        None \<Rightarrow> s
      | Some _ \<Rightarrow>
          if \<not> truthy message then s\<lparr>timeBox := Some (False, [])\<rparr>
          else s\<lparr>timeBox := Some (True, template message)\<rparr>)"

definition renderEmpty :: "string \<Rightarrow> state \<Rightarrow> state" where
  "renderEmpty message s =
     s\<lparr>results := [], emptyState_text := message, emptyState_display := True\<rparr>"

definition setResultsHeader :: "string option \<Rightarrow> nat \<Rightarrow> string option \<Rightarrow> state \<Rightarrow> state" where
  "setResultsHeader queryRaw totalFound categoryLabel s =
     (if \<not> truthy queryRaw
      then s\<lparr>resultsHeader_display := False, resultsTitle := ''Results'', resultsMeta := NoMeta\<rparr>
      else
        (let catText = (if truthy categoryLabel then ''Category: '' @ template categoryLabel
                        else ''Category: (no match)'')
         in s\<lparr>resultsHeader_display := True,
              resultsTitle := ''Showing results for: \"'' @ template queryRaw @ ''\"'',
              resultsMeta := Meta catText totalFound\<rparr>))"

text \<open>The card built for one item in the loop of \<^verbatim>\<open>renderRecommendations\<close>.\<close>

definition make_card :: "string option \<Rightarrow> place \<Rightarrow> card" where
  "make_card badgeLabel item =
     (let name = or_default (p_name item) ''Unknown Place'';
          description = or_default (p_description item) ''No description available.'';
          imageUrl = or_default (p_imageUrl item) ''images/placeholder.jpg''
      in \<lparr>img_alt = name, img_src = imageUrl, badge = badgeLabel, title = name,
          body = description\<rparr>)"

definition renderRecommendations :: "place list \<Rightarrow> string option \<Rightarrow> state \<Rightarrow> state" where
  "renderRecommendations items badgeLabel s =
     (let s = s\<lparr>results := [], emptyState_display := False, emptyState_text := []\<rparr>
      in if length items = 0 then renderEmpty ''No recommendations found for that search.'' s
         else
           (let maxToShow = min (length items) 6;
                toShow = take (max 2 maxToShow) items
            in s\<lparr>results := results s @ map (make_card badgeLabel) toShow\<rparr>))"

definition clearResults :: "state \<Rightarrow> state" where
  "clearResults s =
     (let s = s\<lparr>searchInput := [], results := [], emptyState_display := False,
                emptyState_text := []\<rparr>;
          s = setResultsHeader None 0 None s;
          s = stopClock s
      in setTimeBox None s)"

subsection \<open>The clock\<close>

text \<open>A function that can throw returns how it completed together with the state it left:
  what was written before an exception stays written.\<close>

definition updateSingleClock ::
  "clock \<Rightarrow> string option \<Rightarrow> tz_value option \<Rightarrow> state \<Rightarrow> completion \<times> state" where
  "updateSingleClock clk countryName timeZone s =
     (case toLocaleTimeString clk timeZone of
        Inl e \<Rightarrow> (Threw e, s)
      | Inr timeStr \<Rightarrow>
          (Returned,
           setTimeBox (Some (''Current time in '' @ template countryName @ '': '' @ timeStr)) s))"

definition startSingleClock ::
  "clock \<Rightarrow> string option \<Rightarrow> tz_value option \<Rightarrow> state \<Rightarrow> completion \<times> state" where
  "startSingleClock clk countryName timeZone s =
     (let s = stopClock s
      in if \<not> tz_truthy timeZone
         then (Returned,
               setTimeBox (Some (''Current time: (time zone not configured for '' @
                                 template countryName @ '')'')) s)
         else
           (case updateSingleClock clk countryName timeZone s of
              (Threw e, s) \<Rightarrow> (Threw e, s)
            | (Returned, s) \<Rightarrow>
                (let (h, s) = setInterval (SingleTick countryName timeZone) s
                 in (Returned, s\<lparr>clockIntervalId := Some h\<rparr>))))"

text \<open>The lines of \<^verbatim>\<open>tzList.map(...)\<close> in \<^verbatim>\<open>updateMultiClock\<close>; the first zone the runtime
  rejects ends the loop with its exception.\<close>

fun clock_lines :: "clock \<Rightarrow> (string \<times> tz_value option) list \<Rightarrow> js_error + string list" where
  "clock_lines clk [] = Inr []"
| "clock_lines clk ((label, timeZone) # rest) =
     (case toLocaleTimeString clk timeZone of
        Inl e \<Rightarrow> Inl e
      | Inr t \<Rightarrow>
          (case clock_lines clk rest of
             Inl e \<Rightarrow> Inl e
           | Inr ls \<Rightarrow> Inr ((label @ '': '' @ t) # ls)))"

definition updateMultiClock ::
  "clock \<Rightarrow> (string \<times> tz_value option) list \<Rightarrow> state \<Rightarrow> completion \<times> state" where
  "updateMultiClock clk tzList s =
     (case clock_lines clk tzList of
        Inl e \<Rightarrow> (Threw e, s)
      | Inr ls \<Rightarrow>
          (Returned, setTimeBox (Some (''Current times:'' @ [CHR 0x0A] @ join [CHR 0x0A] ls)) s))"

definition startMultiClock ::
  "clock \<Rightarrow> (string \<times> tz_value option) list \<Rightarrow> state \<Rightarrow> completion \<times> state" where
  "startMultiClock clk tzList s =
     (let s = stopClock s
      in if length tzList = 0 then (Returned, setTimeBox None s)
         else
           (case updateMultiClock clk tzList s of
              (Threw e, s) \<Rightarrow> (Threw e, s)
            | (Returned, s) \<Rightarrow>
                (let (h, s) = setInterval (MultiTick tzList) s
                 in (Returned, s\<lparr>clockIntervalId := Some h\<rparr>))))"

subsection \<open>City to country\<close>

definition inferCountryFromCityName :: "string option \<Rightarrow> string option" where
  "inferCountryFromCityName cityName =
     (let text = trim (or_empty_string cityName);
          parts = split CHR '','' text
      in if length parts < 2 then None else Some (trim (last parts)))"

subsection \<open>Search\<close>

definition flattenAllCities :: "country list \<Rightarrow> place list" where
  "flattenAllCities cs = concat (map (\<lambda>c. or_empty_array (c_cities c)) cs)"

text \<open>The three lookups of \<^verbatim>\<open>handleSearch\<close> over the countries of the dataset.\<close>

definition exactCountry :: "string \<Rightarrow> dataset \<Rightarrow> country option" where
  "exactCountry keyword d =
     find (\<lambda>c. toLowerCase (or_empty_string (c_name c)) = keyword)
          (or_empty_array (countries d))"

definition partialCountry :: "string \<Rightarrow> dataset \<Rightarrow> country option" where
  "partialCountry keyword d =
     find (\<lambda>c. includes_str (toLowerCase (or_empty_string (c_name c))) keyword)
          (or_empty_array (countries d))"

definition matchedCities :: "string \<Rightarrow> dataset \<Rightarrow> place list" where
  "matchedCities keyword d =
     filter (\<lambda>city. includes_str (toLowerCase (or_empty_string (p_name city))) keyword)
            (flattenAllCities (or_empty_array (countries d)))"

text \<open>The \<^verbatim>\<open>return\<close> statement at which \<^verbatim>\<open>handleSearch\<close> ends, in source order: the two
  rejections, the six match tiers, and the final no-match fall-through.\<close>

datatype exit_point =
    EmptyQuery | DataNotLoaded
  | BeachTier | TempleTier | CountryTier
  | ExactCountryTier | PartialCountryTier | CityTier
  | NoMatch

definition handleSearch :: "clock \<Rightarrow> state \<Rightarrow> exit_point \<times> completion \<times> state" where
  "handleSearch clk s =
     (let raw = trim (searchInput s)
      in if raw = [] then
           (let s = stopClock s;
                s = setTimeBox None s;
                s = setResultsHeader None 0 None s;
                s = renderEmpty
                  ''Type a keyword like \"beach\", \"temple\", \"country\", or a country/city name.'' s
            in (EmptyQuery, Returned, s))
         else
           (case apiData s of
              None \<Rightarrow>
                (let s = stopClock s;
                     s = setTimeBox None s;
                     s = setResultsHeader None 0 None s;
                     s = renderEmpty ''Data is still loading. Try again in a moment.'' s
                 in (DataNotLoaded, Returned, s))
            | Some d \<Rightarrow>
                (let keyword = normalizeKeyword raw
                 in if keyword = ''beach'' then
                      (let s = stopClock s;
                           s = setTimeBox None s;
                           list = or_empty_array (beaches d);
                           s = setResultsHeader (Some raw) (length list) (Some ''Beaches'') s;
                           s = renderRecommendations list (Some ''Beaches'') s
                       in (BeachTier, Returned, s))
                    else if keyword = ''temple'' then
                      (let s = stopClock s;
                           s = setTimeBox None s;
                           list = or_empty_array (temples d);
                           s = setResultsHeader (Some raw) (length list) (Some ''Temples'') s;
                           s = renderRecommendations list (Some ''Temples'') s
                       in (TempleTier, Returned, s))
                    else if keyword = ''country'' then
                      (let allCities = flattenAllCities (or_empty_array (countries d));
                           s = setResultsHeader (Some raw) (length allCities)
                                 (Some ''Countries (Cities)'') s;
                           s = renderRecommendations allCities (Some ''Countries'') s;
                           tzList = getTimeZonesForCountries
                                      (map c_name (or_empty_array (countries d)));
                           (r, s) = startMultiClock clk tzList s
                       in (CountryTier, r, s))
                    else
                      (case exactCountry keyword d of
                         Some c \<Rightarrow>
                           (let cities = or_empty_array (c_cities c);
                                s = setResultsHeader (Some raw) (length cities)
                                      (Some (template (c_name c) @ '' (Cities)'')) s;
                                s = renderRecommendations cities (c_name c) s;
                                tz = getTimeZoneForCountry (c_name c);
                                (r, s) = startSingleClock clk (c_name c) tz s
                            in (ExactCountryTier, r, s))
                       | None \<Rightarrow>
                      (case partialCountry keyword d of
                         Some c \<Rightarrow>
                           (let cities = or_empty_array (c_cities c);
                                s = setResultsHeader (Some raw) (length cities)
                                      (Some (template (c_name c) @ '' (Cities)'')) s;
                                s = renderRecommendations cities (c_name c) s;
                                tz = getTimeZoneForCountry (c_name c);
                                (r, s) = startSingleClock clk (c_name c) tz s
                            in (PartialCountryTier, r, s))
                       | None \<Rightarrow>
                      (case matchedCities keyword d of
                         first # others \<Rightarrow>
                           (let matched = first # others;
                                s = setResultsHeader (Some raw) (length matched)
                                      (Some ''City Results'') s;
                                s = renderRecommendations matched (Some ''City'') s;
                                inferredCountry = inferCountryFromCityName (p_name first)
                            in if truthy inferredCountry then
                                 (let tz = getTimeZoneForCountry inferredCountry;
                                      (r, s) = startSingleClock clk inferredCountry tz s
                                  in (CityTier, r, s))
                               else
                                 (let s = stopClock s;
                                      s = setTimeBox None s
                                  in (CityTier, Returned, s)))
                       | [] \<Rightarrow>
                           (let s = stopClock s;
                                s = setTimeBox None s;
                                s = setResultsHeader (Some raw) 0 None s;
                                s = renderEmpty
                                  ''No matches found. Try \"beach\", \"temple\", \"country\", or a country/city name.'' s
                            in (NoMatch, Returned, s))))))))"

subsection \<open>Loading the dataset\<close>

text \<open>How the one \<^verbatim>\<open>fetch\<close> of the dataset can end: the request is rejected, the response is
  not ok, its body is not JSON, or the body parses to a dataset.\<close>

datatype fetch_result = FetchRejected | ResponseNotOk | JsonRejected | JsonParsed dataset

definition fetchApiData :: "fetch_result \<Rightarrow> state \<Rightarrow> state" where
  "fetchApiData r s =
     (case r of
        JsonParsed d \<Rightarrow> s\<lparr>apiData := Some d\<rparr>
      | _ \<Rightarrow> renderEmpty
          ''Unable to load recommendation data. Check your JSON file path (and use Live Server).'' s)"

subsection \<open>Pages and events\<close>

text \<open>\<^verbatim>\<open>showPage\<close>, without the class changes of the navigation bar.\<close>

definition showPage :: "string \<Rightarrow> state \<Rightarrow> state" where
  "showPage pageName s =
     (if pageName = ''home'' then s\<lparr>activePage := Home\<rparr>
      else if pageName = ''about'' then clearResults (s\<lparr>activePage := About\<rparr>)
      else clearResults (s\<lparr>activePage := Contact\<rparr>))"

text \<open>What can happen to the page: the user edits the search box, clicks Search or Reset,
  follows a navigation link; an active interval fires; the fetch started at load time ends.\<close>

datatype event =
    Edit string
  | ClickSearch
  | ClickReset
  | Navigate string
  | Fire nat
  | FetchEnds fetch_result

definition fire :: "clock \<Rightarrow> nat \<Rightarrow> state \<Rightarrow> state" where
  "fire clk h s =
     (case map_of (timers s) h of
        None \<Rightarrow> s
      | Some (SingleTick countryName timeZone) \<Rightarrow> snd (updateSingleClock clk countryName timeZone s)
      | Some (MultiTick tzList) \<Rightarrow> snd (updateMultiClock clk tzList s))"

fun step :: "clock \<Rightarrow> event \<Rightarrow> state \<Rightarrow> state" where
  "step clk (Edit v) s = s\<lparr>searchInput := v\<rparr>"
| "step clk ClickSearch s = snd (snd (handleSearch clk s))"
| "step clk ClickReset s = clearResults s"
| "step clk (Navigate pageName) s = showPage pageName s"
| "step clk (Fire h) s = fire clk h s"
| "step clk (FetchEnds r) s = fetchApiData r s"

fun run :: "(clock \<times> event) list \<Rightarrow> state \<Rightarrow> state" where
  "run [] s = s"
| "run ((clk, e) # es) s = run es (step clk e s)"

text \<open>When the script starts, no dataset is loaded and no interval is active; the page is
  whatever the document holds.\<close>

definition initial :: "state \<Rightarrow> bool" where
  "initial s = (apiData s = None \<and> clockIntervalId s = None \<and> timers s = [])"

inductive reachable :: "state \<Rightarrow> bool" where
  start: "initial s \<Longrightarrow> reachable s"
| after: "reachable s \<Longrightarrow> reachable (step clk e s)"

subsection \<open>Notions used in the properties\<close>

text \<open>The relation between the module variable \<^verbatim>\<open>clockIntervalId\<close> and the browser's table of
  intervals: with no handle stored no interval is active; a stored handle is one the browser
  issued (greater than zero, at most the last one) and it is the only active interval.\<close>

definition clock_inv :: "state \<Rightarrow> bool" where
  "clock_inv s =
     (case clockIntervalId s of
        None \<Rightarrow> timers s = []
      | Some h \<Rightarrow> h \<noteq> 0 \<and> h \<le> last_handle s \<and> map fst (timers s) = [h])"

text \<open>The runtime formats the current time for this time-zone value.\<close>

definition valid_zone :: "clock \<Rightarrow> tz_value option \<Rightarrow> bool" where
  "valid_zone clk tz = (case toLocaleTimeString clk tz of Inl _ \<Rightarrow> False | Inr _ \<Rightarrow> True)"

text \<open>A dataset with every missing top-level field replaced by the empty array.\<close>

definition with_defaults :: "dataset \<Rightarrow> dataset" where
  "with_defaults d =
     \<lparr>beaches = Some (or_empty_array (beaches d)),
      temples = Some (or_empty_array (temples d)),
      countries = Some (or_empty_array (countries d))\<rparr>"

text \<open>The events that are not the end of the fetch.\<close>

fun user_event :: "event \<Rightarrow> bool" where
  "user_event (FetchEnds r) = False"
| "user_event e = True"

text \<open>The segment after the last comma consists of white space only (or is empty).\<close>

definition blank_tail :: "string \<Rightarrow> bool" where
  "blank_tail s = (CHR '','' \<in> set s \<and> list_all is_space (last (split CHR '','' s)))"

subsection \<open>Sample data\<close>

text \<open>A small page, dataset and clock on which the theorems below are instantiated.\<close>

definition sample_page :: state where
  "sample_page =
     \<lparr>apiData = None, clockIntervalId = None, timers = [], last_handle = 0,
      searchInput = [], results = [], emptyState_display = False, emptyState_text = [],
      resultsHeader_display = False, resultsTitle = ''Results'', resultsMeta = NoMeta,
      timeBox = Some (False, []), activePage = Home\<rparr>"

definition sample_clock :: clock where
  "sample_clock z = (if z = ''Asia/Tokyo'' then Some ''9:41:07 PM'' else None)"

definition bondi :: place where
  "bondi = \<lparr>p_name = Some ''Bondi Beach, Australia'', p_description = Some ''Surf'',
            p_imageUrl = Some ''bondi.jpg''\<rparr>"

definition copacabana :: place where
  "copacabana = \<lparr>p_name = Some ''Copacabana Beach, Brazil'', p_description = None,
                 p_imageUrl = None\<rparr>"

definition kyoto :: place where
  "kyoto = \<lparr>p_name = Some ''Kyoto, Japan'', p_description = Some ''Temples and gardens'',
            p_imageUrl = Some ''kyoto.jpg''\<rparr>"

definition tokyo :: place where
  "tokyo = \<lparr>p_name = Some ''Tokyo, Japan'', p_description = Some ''Capital'',
            p_imageUrl = None\<rparr>"

definition sydney :: place where
  "sydney = \<lparr>p_name = Some ''Sydney, Australia'', p_description = Some ''Harbour'',
             p_imageUrl = Some ''sydney.jpg''\<rparr>"

definition new_japanland :: country where
  "new_japanland = \<lparr>c_name = Some ''New Japanland'', c_cities = Some [sydney]\<rparr>"

definition japan :: country where
  "japan = \<lparr>c_name = Some ''Japan'', c_cities = Some [tokyo, kyoto]\<rparr>"

definition sample_data :: dataset where
  "sample_data =
     \<lparr>beaches = Some [bondi, copacabana],
      temples = None,
      countries = Some [new_japanland, japan]\<rparr>"

definition kyoto_bare :: place where
  "kyoto_bare = \<lparr>p_name = Some ''Kyoto, '', p_description = None, p_imageUrl = None\<rparr>"

definition sample_data_bare :: dataset where
  "sample_data_bare =
     \<lparr>beaches = None, temples = None,
      countries = Some [\<lparr>c_name = Some ''Japan'', c_cities = Some [kyoto_bare, tokyo]\<rparr>]\<rparr>"

text \<open>A session in which the fetch has failed and the user keeps trying.\<close>

definition retry_session :: "(clock \<times> event) list" where
  "retry_session =
     [(sample_clock, Edit ''beach''), (sample_clock, ClickSearch),
      (sample_clock, Navigate ''about''), (sample_clock, Navigate ''home''),
      (sample_clock, Edit ''japan'')]"

definition sample_data_no_countries :: dataset where
  "sample_data_no_countries = \<lparr>beaches = Some [bondi], temples = None, countries = None\<rparr>"

text \<open>A session in which the dataset loads and the user searches for \<open>japan\<close>.\<close>

definition japan_session :: "(clock \<times> event) list" where
  "japan_session =
     [(sample_clock, FetchEnds (JsonParsed sample_data)),
      (sample_clock, Edit ''japan''),
      (sample_clock, ClickSearch)]"

text \<open>A session on the dataset with a city named \<open>Kyoto,\<close> followed by a blank: the user
  first searches for \<open>japan\<close>, which starts a clock, then types \<open>kyoto\<close>.\<close>

definition kyoto_session :: "(clock \<times> event) list" where
  "kyoto_session =
     [(sample_clock, FetchEnds (JsonParsed sample_data_bare)),
      (sample_clock, Edit ''japan''),
      (sample_clock, ClickSearch),
      (sample_clock, Edit ''kyoto'')]"

section \<open>Properties\<close>

subsection \<open>Splitting and joining\<close>

text \<open>\<^const>\<open>split\<close> is the inverse of \<^const>\<open>join\<close>, its segments hold no separator, and there
  is one more segment than separators: this is \<^verbatim>\<open>String.prototype.split\<close> on a
  one-character separator.\<close>

lemma split_not_Nil: "split sep s \<noteq> []"
  by (induction s) (auto split: list.splits)

lemma length_split: "length (split sep s) = Suc (length (filter (\<lambda>c. c = sep) s))"
  by (induction s) (auto split: list.splits simp: split_not_Nil)

lemma split_segments: "seg \<in> set (split sep s) \<Longrightarrow> sep \<notin> set seg"
proof (induction s arbitrary: seg)
  case Nil
  then show ?case by simp
next
  case (Cons c cs)
  show ?case
  proof (cases "c = sep")
    case True
    with Cons show ?thesis by auto
  next
    case False
    obtain x xs where sp: "split sep cs = x # xs"
      using split_not_Nil [of sep cs] by (cases "split sep cs") auto
    with Cons False show ?thesis by auto
  qed
qed

lemma join_Cons: "ys \<noteq> [] \<Longrightarrow> join sep (x # ys) = x @ sep @ join sep ys"
  by (cases ys) auto

lemma join_split: "join [sep] (split sep s) = s"
proof (induction s)
  case Nil
  then show ?case by simp
next
  case (Cons c cs)
  obtain x xs where sp: "split sep cs = x # xs"
    using split_not_Nil [of sep cs] by (cases "split sep cs") auto
  show ?case
  proof (cases "c = sep")
    case True
    with Cons show ?thesis by (simp add: join_Cons split_not_Nil)
  next
    case False
    with Cons sp show ?thesis by (cases xs) auto
  qed
qed

lemma last_split: "last (split sep s) = rev (takeWhile (\<lambda>c. c \<noteq> sep) (rev s))"
proof (induction s)
  case Nil
  then show ?case by simp
next
  case (Cons c cs)
  obtain x xs where sp: "split sep cs = x # xs"
    using split_not_Nil [of sep cs] by (cases "split sep cs") auto
  show ?case
  proof (cases "sep \<in> set cs")
    case True
    then have "1 < length (split sep cs)"
      by (auto simp: length_split filter_empty_conv)
    with sp have xs: "xs \<noteq> []" by auto
    from True have tw: "takeWhile (\<lambda>c. c \<noteq> sep) (rev cs @ [c]) = takeWhile (\<lambda>c. c \<noteq> sep) (rev cs)"
      by (auto simp: takeWhile_append)
    show ?thesis using Cons sp xs tw by (auto split: list.splits)
  next
    case False
    then have "length (split sep cs) = 1"
      by (auto simp: length_split filter_empty_conv)
    with sp have xs: "xs = []" by auto
    from False have x: "x = cs" using join_split [of sep cs] sp xs by simp
    from False have "\<forall>x\<in>set cs. x \<noteq> sep" by blast
    then have tw: "takeWhile (\<lambda>c. c \<noteq> sep) (rev cs) = rev cs"
      by (simp add: takeWhile_eq_all_conv)
    show ?thesis
    proof (cases "c = sep")
      case True
      then show ?thesis using sp xs x tw by (simp add: takeWhile_append)
    next
      case False
      then show ?thesis using sp xs x tw \<open>sep \<notin> set cs\<close> by (simp add: takeWhile_append)
    qed
  qed
qed

subsection \<open>Trimming and lower case\<close>

text \<open>\<^const>\<open>trim\<close> is characterised by its result: the only way to write a string as
  white space, a part that neither starts nor ends with white space, and white space.\<close>

lemma dropWhile_spaces: "\<forall>c \<in> set l. is_space c \<Longrightarrow> dropWhile is_space (l @ t) = dropWhile is_space t"
  by (induction l) auto

lemma trim_unique:
  assumes l: "\<forall>c \<in> set l. is_space c" and r: "\<forall>c \<in> set r. is_space c"
    and t: "t = [] \<or> (\<not> is_space (hd t) \<and> \<not> is_space (last t))"
  shows "trim (l @ t @ r) = t"
proof (cases "t = []")
  case True
  from l r have "\<forall>c \<in> set (l @ r). is_space c" by auto
  then have "dropWhile is_space (l @ r) = []" by (simp only: dropWhile_eq_Nil_conv)
  then have "trim (l @ r) = []" by (simp only: trim_def rev.simps dropWhile.simps)
  with True show ?thesis by simp
next
  case False
  with t have h: "\<not> is_space (hd t)" and e: "\<not> is_space (last t)" by auto
  from False h have d1: "dropWhile is_space (t @ r) = t @ r" by (cases t) auto
  from r have r': "\<forall>c \<in> set (rev r). is_space c" by simp
  from False e have d2: "dropWhile is_space (rev t) = rev t"
    by (cases "rev t") (auto simp: last_rev [symmetric] simp del: last_rev)
  have "trim (l @ t @ r) = rev (dropWhile is_space (rev (t @ r)))"
    using dropWhile_spaces [OF l, of "t @ r"] d1 by (simp add: trim_def)
  also have "\<dots> = rev (dropWhile is_space (rev t))"
    using dropWhile_spaces [OF r', of "rev t"] by simp
  also have "\<dots> = t" using d2 by simp
  finally show ?thesis .
qed

lemma trim_decomp:
  "\<exists>l r. s = l @ trim s @ r \<and> (\<forall>c \<in> set l. is_space c) \<and> (\<forall>c \<in> set r. is_space c)"
proof -
  let ?a = "dropWhile is_space s"
  let ?b = "dropWhile is_space (rev ?a)"
  have s: "s = takeWhile is_space s @ ?a" by simp
  have "rev (takeWhile is_space (rev ?a) @ ?b) = ?a"
    by (simp only: takeWhile_dropWhile_id rev_rev_ident)
  then have a: "?a = rev ?b @ rev (takeWhile is_space (rev ?a))"
    by (simp only: rev_append)
  have "s = takeWhile is_space s @ trim s @ rev (takeWhile is_space (rev ?a))"
    using s a by (metis trim_def)
  moreover have "\<forall>c \<in> set (takeWhile is_space s). is_space c"
    by (auto dest: set_takeWhileD)
  moreover have "\<forall>c \<in> set (rev (takeWhile is_space (rev ?a))). is_space c"
    by (auto dest: set_takeWhileD)
  ultimately show ?thesis by blast
qed

lemma trim_ends: "trim s = [] \<or> (\<not> is_space (hd (trim s)) \<and> \<not> is_space (last (trim s)))"
proof (cases "trim s = []")
  case True
  then show ?thesis by simp
next
  case False
  let ?a = "dropWhile is_space s"
  let ?b = "dropWhile is_space (rev ?a)"
  from False have b: "?b \<noteq> []" by (simp add: trim_def)
  then have hb: "\<not> is_space (hd ?b)" by (rule hd_dropWhile)
  have "?a = [] \<Longrightarrow> ?b = []" by (simp only: rev.simps dropWhile.simps)
  with b have a: "?a \<noteq> []" by blast
  then have ha: "\<not> is_space (hd ?a)" by (rule hd_dropWhile)
  have "rev ?a = takeWhile is_space (rev ?a) @ ?b" by simp
  with b have "last (rev ?a) = last ?b" by (metis last_appendR)
  with a have "last ?b = hd ?a" by (simp add: last_rev)
  with ha have lb: "\<not> is_space (last ?b)" by simp
  have "hd (trim s) = last ?b" using b by (simp add: trim_def hd_rev)
  moreover have "last (trim s) = hd ?b" using b by (simp add: trim_def last_rev)
  ultimately show ?thesis using hb lb by simp
qed

lemma trim_idem: "trim (trim s) = trim s"
  using trim_unique [of "[]" "[]" "trim s"] trim_ends [of s] by simp

lemma trim_spaces: "\<forall>c \<in> set s. is_space c \<Longrightarrow> trim s = []"
  using trim_unique [of s "[]" "[]"] by simp

lemma trim_Nil_iff: "trim s = [] \<longleftrightarrow> (\<forall>c \<in> set s. is_space c)"
proof
  assume "trim s = []"
  with trim_decomp [of s] obtain l r where "s = l @ r" "\<forall>c \<in> set l. is_space c" "\<forall>c \<in> set r. is_space c"
    by auto
  then show "\<forall>c \<in> set s. is_space c" by auto
qed (rule trim_spaces)

lemma code_unit_char_of: "n < 256 \<Longrightarrow> code_unit (char_of n) = n"
  by (simp add: code_unit_def)

lemma is_space_lower [simp]: "is_space (lower_char c) = is_space c"
  by (auto simp: is_space_def lower_char_def code_unit_char_of)

lemma lower_char_idem [simp]: "lower_char (lower_char c) = lower_char c"
  by (auto simp: lower_char_def code_unit_char_of)

lemma toLowerCase_append: "toLowerCase (a @ b) = toLowerCase a @ toLowerCase b"
  by (simp add: toLowerCase_def)

lemma trim_toLowerCase: "trim (toLowerCase s) = toLowerCase (trim s)"
proof -
  obtain l r where s: "s = l @ trim s @ r" and l: "\<forall>c \<in> set l. is_space c"
    and r: "\<forall>c \<in> set r. is_space c"
    using trim_decomp [of s] by blast
  have l': "\<forall>c \<in> set (toLowerCase l). is_space c" using l by (simp add: toLowerCase_def)
  have r': "\<forall>c \<in> set (toLowerCase r). is_space c" using r by (simp add: toLowerCase_def)
  have t': "toLowerCase (trim s) = [] \<or>
      (\<not> is_space (hd (toLowerCase (trim s))) \<and> \<not> is_space (last (toLowerCase (trim s))))"
    using trim_ends [of s] by (auto simp: toLowerCase_def hd_map last_map)
  have "toLowerCase s = toLowerCase l @ toLowerCase (trim s) @ toLowerCase r"
    using s by (metis toLowerCase_append)
  then show ?thesis using trim_unique [OF l' r' t'] by simp
qed

lemma not_space_comma: "\<not> is_space (CHR '','')"
  by (simp add: is_space_def code_unit_def)

lemma split_short_iff: "length (split sep s) < 2 \<longleftrightarrow> sep \<notin> set s"
  by (auto simp: length_split filter_empty_conv)

lemma trim_last_segment:
  assumes sep: "\<not> is_space sep" and mem: "sep \<in> set s"
  shows "trim (last (split sep (trim s))) = trim (last (split sep s))"
proof -
  let ?A = "\<lambda>x. rev (takeWhile (\<lambda>c. c \<noteq> sep) (rev x))"
  obtain l r where s: "s = l @ trim s @ r" and l: "\<forall>c \<in> set l. is_space c"
    and r: "\<forall>c \<in> set r. is_space c"
    using trim_decomp [of s] by blast
  from sep l have nl: "sep \<notin> set l" by auto
  from sep r have nr: "\<forall>c \<in> set (rev r). c \<noteq> sep" by auto
  from mem s nl nr have t: "sep \<in> set (trim s)"
    by (metis Un_iff set_append set_rev)
  then have t': "sep \<in> set (rev (trim s))" by simp
  have nr': "\<And>c. c \<in> set (rev r) \<Longrightarrow> c \<noteq> sep" using nr by blast
  have "takeWhile (\<lambda>c. c \<noteq> sep) (rev r @ (rev (trim s) @ rev l)) =
        rev r @ takeWhile (\<lambda>c. c \<noteq> sep) (rev (trim s) @ rev l)"
    using nr' by (rule takeWhile_append2)
  moreover have "takeWhile (\<lambda>c. c \<noteq> sep) (rev (trim s) @ rev l) =
        takeWhile (\<lambda>c. c \<noteq> sep) (rev (trim s))"
    using t' by (simp add: takeWhile_append1)
  moreover have "rev (l @ trim s @ r) = rev r @ (rev (trim s) @ rev l)" by simp
  ultimately have "takeWhile (\<lambda>c. c \<noteq> sep) (rev (l @ trim s @ r)) =
        rev r @ takeWhile (\<lambda>c. c \<noteq> sep) (rev (trim s))" by (simp only:)
  then have "rev (takeWhile (\<lambda>c. c \<noteq> sep) (rev (l @ trim s @ r))) =
        rev (takeWhile (\<lambda>c. c \<noteq> sep) (rev (trim s))) @ r" by (simp only: rev_append rev_rev_ident)
  with s [symmetric] have A: "?A s = ?A (trim s) @ r" by (simp only:)
  obtain l' r' where a: "?A (trim s) = l' @ trim (?A (trim s)) @ r'"
    and l': "\<forall>c \<in> set l'. is_space c" and r': "\<forall>c \<in> set r'. is_space c"
    using trim_decomp [of "?A (trim s)"] by blast
  from r r' have rr: "\<forall>c \<in> set (r' @ r). is_space c" by auto
  have "?A s = l' @ trim (?A (trim s)) @ (r' @ r)" using A a by (metis append.assoc)
  then have "trim (?A s) = trim (?A (trim s))"
    using trim_unique [OF l' rr trim_ends [of "?A (trim s)"]] by simp
  then show ?thesis by (simp add: last_split)
qed

lemma set_trim: "set (trim s) \<subseteq> set s"
proof -
  obtain l r where s: "s = l @ trim s @ r" using trim_decomp [of s] by blast
  have "set (l @ trim s @ r) = set l \<union> set (trim s) \<union> set r" by auto
  then have "set (trim s) \<subseteq> set (l @ trim s @ r)" by (simp only: Un_upper1 Un_upper2 le_supI1)
  then show ?thesis using s [symmetric] by (simp only:)
qed

lemma core_fixed: "trim (filter kept (toLowerCase (trim (filter kept (toLowerCase s))))) =
   trim (filter kept (toLowerCase s))"
proof -
  let ?u = "trim (filter kept (toLowerCase s))"
  have mem: "\<forall>c \<in> set ?u. kept c \<and> lower_char c = c"
  proof
    fix c assume "c \<in> set ?u"
    then have "c \<in> set (filter kept (toLowerCase s))"
      using set_trim [of "filter kept (toLowerCase s)"] by (rule subsetD [rotated])
    then show "kept c \<and> lower_char c = c" by (auto simp: toLowerCase_def)
  qed
  then have "map lower_char ?u = ?u" by (intro map_idI) blast
  then have 1: "toLowerCase ?u = ?u" by (simp only: toLowerCase_def)
  from mem have "\<forall>c \<in> set ?u. kept c" by blast
  then have 2: "filter kept ?u = ?u" by (simp only: filter_id_conv)
  show ?thesis by (simp only: 1 2 trim_idem)
qed

subsection \<open>City to country\<close>

lemma comma_in_trim: "CHR '','' \<in> set (trim s) \<longleftrightarrow> CHR '','' \<in> set s"
proof -
  obtain l r where s: "s = l @ trim s @ r" and l: "\<forall>c \<in> set l. is_space c"
    and r: "\<forall>c \<in> set r. is_space c"
    using trim_decomp [of s] by blast
  from l r not_space_comma have "CHR '','' \<notin> set l" "CHR '','' \<notin> set r" by auto
  then show ?thesis using s by (metis Un_iff set_append)
qed

lemma inferCountryFromCityName_Some:
  "inferCountryFromCityName (Some s) =
     (if length (split CHR '','' s) < 2 then None
      else Some (trim (last (split CHR '','' s))))"
proof (cases "CHR '','' \<in> set s")
  case True
  then show ?thesis
    using comma_in_trim [of s] trim_last_segment [OF not_space_comma True]
    by (simp add: inferCountryFromCityName_def or_empty_string_def split_short_iff Let_def)
next
  case False
  then show ?thesis
    using comma_in_trim [of s]
    by (simp add: inferCountryFromCityName_def or_empty_string_def split_short_iff Let_def)
qed

text \<open>C7: for every city display name, the inference splits the name on commas; with
  fewer than two segments it returns no country, otherwise the last segment with the
  surrounding white space removed. A missing name gives no country, \<open>Kyoto, Japan\<close> gives
  \<open>Japan\<close> and \<open>Unknown\<close> gives no country.\<close>

theorem inferCountryFromCityName_segments:
  "inferCountryFromCityName None = None \<and>
   inferCountryFromCityName (Some s) =
     (if length (split CHR '','' s) < 2 then None
      else Some (trim (last (split CHR '','' s)))) \<and>
   inferCountryFromCityName (Some ''Kyoto, Japan'') = Some ''Japan'' \<and>
   inferCountryFromCityName (Some ''Unknown'') = None"
proof -
  have none: "inferCountryFromCityName None = None"
    by code_simp
  have kyoto: "inferCountryFromCityName (Some ''Kyoto, Japan'') = Some ''Japan''"
    by code_simp
  have unknown: "inferCountryFromCityName (Some ''Unknown'') = None"
    by code_simp
  from none inferCountryFromCityName_Some kyoto unknown show ?thesis by blast
qed

subsection \<open>Normalisation\<close>

text \<open>C9: normalising a query twice is the same as normalising it once.\<close>

theorem normalizeKeyword_idempotent:
  "normalizeKeyword (normalizeKeyword s) = normalizeKeyword s"
proof -
  let ?u = "trim (filter kept (toLowerCase s))"
  have b: "normalizeKeyword ''beach'' = ''beach''" by code_simp
  have t: "normalizeKeyword ''temple'' = ''temple''" by code_simp
  have c: "normalizeKeyword ''country'' = ''country''" by code_simp
  consider "?u = ''beaches''" | "?u = ''temples''" | "?u = ''countries''"
    | "?u \<noteq> ''beaches''" "?u \<noteq> ''temples''" "?u \<noteq> ''countries''" by blast
  then show ?thesis
  proof cases
    case 1
    then have "normalizeKeyword s = ''beach''" by (simp add: normalizeKeyword_def)
    with b show ?thesis by simp
  next
    case 2
    then have "normalizeKeyword s = ''temple''" by (simp add: normalizeKeyword_def)
    with t show ?thesis by simp
  next
    case 3
    then have "normalizeKeyword s = ''country''" by (simp add: normalizeKeyword_def)
    with c show ?thesis by simp
  next
    case 4
    then have n: "normalizeKeyword s = ?u" by (simp add: normalizeKeyword_def Let_def)
    have "normalizeKeyword ?u = ?u"
      using 4 core_fixed [of s] by (simp add: normalizeKeyword_def Let_def)
    with n show ?thesis by simp
  qed
qed

subsection \<open>Rendering\<close>

lemma take_window: "take (max 2 (min (length xs) 6)) xs = take 6 xs"
proof (cases "length xs \<le> 6")
  case True
  then show ?thesis by simp
next
  case False
  then show ?thesis by (simp add: max_def min_def)
qed

lemma renderRecommendations_results:
  "results (renderRecommendations items badgeLabel s) = map (make_card badgeLabel) (take 6 items)"
proof (cases "items = []")
  case True
  then show ?thesis by (simp add: renderRecommendations_def renderEmpty_def)
next
  case False
  then have "results (renderRecommendations items badgeLabel s) =
      map (make_card badgeLabel) (take (max 2 (min (length items) 6)) items)"
    by (simp add: renderRecommendations_def Let_def)
  then show ?thesis by (simp only: take_window)
qed

text \<open>C2 (as amended): for a list of \<open>count\<close> items the renderer shows
  \<open>max 2 (min 6 count)\<close> cards when \<open>count\<close> is at least 2 and exactly \<open>count\<close> cards when
  \<open>count\<close> is below 2, that is one card for one item, \<open>count\<close> cards for two to six items and
  six cards for more; the cards are those of the first items, in order. A non-empty list
  hides the empty-state message; an empty list shows no card and the message that no
  recommendations were found.\<close>

theorem renderRecommendations_window:
  "(2 \<le> length items \<longrightarrow>
      length (results (renderRecommendations items badgeLabel s)) = max 2 (min 6 (length items))) \<and>
   (length items < 2 \<longrightarrow>
      length (results (renderRecommendations items badgeLabel s)) = length items) \<and>
   results (renderRecommendations items badgeLabel s) = map (make_card badgeLabel) (take 6 items) \<and>
   (items \<noteq> [] \<longrightarrow> \<not> emptyState_display (renderRecommendations items badgeLabel s)) \<and>
   (items = [] \<longrightarrow>
      emptyState_display (renderRecommendations items badgeLabel s) \<and>
      emptyState_text (renderRecommendations items badgeLabel s) =
        ''No recommendations found for that search.'')"
proof -
  have 1: "2 \<le> length items \<longrightarrow>
      length (results (renderRecommendations items badgeLabel s)) = max 2 (min 6 (length items))"
    by (auto simp: renderRecommendations_results)
  have 2: "length items < 2 \<longrightarrow>
      length (results (renderRecommendations items badgeLabel s)) = length items"
    by (auto simp: renderRecommendations_results)
  have 3: "items \<noteq> [] \<longrightarrow> \<not> emptyState_display (renderRecommendations items badgeLabel s)"
    by (simp add: renderRecommendations_def Let_def)
  have 4: "items = [] \<longrightarrow>
      emptyState_display (renderRecommendations items badgeLabel s) \<and>
      emptyState_text (renderRecommendations items badgeLabel s) =
        ''No recommendations found for that search.''"
    by (simp add: renderRecommendations_def renderEmpty_def)
  from 1 2 3 4 renderRecommendations_results show ?thesis by blast
qed

theorem renderRecommendations_window_witness:
  "length (results (renderRecommendations [] (Some ''Beaches'') sample_page)) = 0 \<and>
   emptyState_display (renderRecommendations [] (Some ''Beaches'') sample_page) \<and>
   emptyState_text (renderRecommendations [] (Some ''Beaches'') sample_page) =
     ''No recommendations found for that search.'' \<and>
   length (results (renderRecommendations [bondi] (Some ''Beaches'') sample_page)) = 1 \<and>
   \<not> emptyState_display (renderRecommendations [bondi] (Some ''Beaches'') sample_page) \<and>
   length (results (renderRecommendations
     [bondi, copacabana, kyoto, tokyo, sydney, bondi, kyoto] (Some ''Beaches'') sample_page)) = 6"
  using renderRecommendations_window [of "[]" "Some ''Beaches''" sample_page]
    renderRecommendations_window [of "[bondi]" "Some ''Beaches''" sample_page]
    renderRecommendations_window
      [of "[bondi, copacabana, kyoto, tokyo, sydney, bondi, kyoto]" "Some ''Beaches''" sample_page]
  by simp

text \<open>With one item the renderer shows one card, not \<open>max 2 (min 6 1) = 2\<close>.\<close>

theorem renderRecommendations_single_counterexample:
  "1 \<le> length [bondi] \<and>
   length (results (renderRecommendations [bondi] (Some ''Beaches'') sample_page)) \<noteq>
     max 2 (min 6 (length [bondi]))"
  by (simp add: renderRecommendations_def Let_def)

subsection \<open>What each operation leaves unchanged\<close>

lemma setTimeBox_fields [simp]:
  "apiData (setTimeBox m s) = apiData s"
  "clockIntervalId (setTimeBox m s) = clockIntervalId s"
  "timers (setTimeBox m s) = timers s"
  "last_handle (setTimeBox m s) = last_handle s"
  "searchInput (setTimeBox m s) = searchInput s"
  "results (setTimeBox m s) = results s"
  "emptyState_display (setTimeBox m s) = emptyState_display s"
  "emptyState_text (setTimeBox m s) = emptyState_text s"
  "resultsHeader_display (setTimeBox m s) = resultsHeader_display s"
  "resultsTitle (setTimeBox m s) = resultsTitle s"
  "resultsMeta (setTimeBox m s) = resultsMeta s"
  "activePage (setTimeBox m s) = activePage s"
  by (simp_all add: setTimeBox_def split: option.splits)

lemma timeBox_setTimeBox:
  "timeBox (setTimeBox m s) =
     (case timeBox s of
        None \<Rightarrow> None
      | Some _ \<Rightarrow> Some (if truthy m then (True, template m) else (False, [])))"
  by (simp add: setTimeBox_def split: option.splits)

lemma renderEmpty_fields [simp]:
  "apiData (renderEmpty m s) = apiData s"
  "clockIntervalId (renderEmpty m s) = clockIntervalId s"
  "timers (renderEmpty m s) = timers s"
  "last_handle (renderEmpty m s) = last_handle s"
  "searchInput (renderEmpty m s) = searchInput s"
  "results (renderEmpty m s) = []"
  "emptyState_display (renderEmpty m s) = True"
  "emptyState_text (renderEmpty m s) = m"
  "resultsHeader_display (renderEmpty m s) = resultsHeader_display s"
  "resultsTitle (renderEmpty m s) = resultsTitle s"
  "resultsMeta (renderEmpty m s) = resultsMeta s"
  "timeBox (renderEmpty m s) = timeBox s"
  "activePage (renderEmpty m s) = activePage s"
  by (simp_all add: renderEmpty_def)

lemma setResultsHeader_fields [simp]:
  "apiData (setResultsHeader q n l s) = apiData s"
  "clockIntervalId (setResultsHeader q n l s) = clockIntervalId s"
  "timers (setResultsHeader q n l s) = timers s"
  "last_handle (setResultsHeader q n l s) = last_handle s"
  "searchInput (setResultsHeader q n l s) = searchInput s"
  "results (setResultsHeader q n l s) = results s"
  "emptyState_display (setResultsHeader q n l s) = emptyState_display s"
  "emptyState_text (setResultsHeader q n l s) = emptyState_text s"
  "timeBox (setResultsHeader q n l s) = timeBox s"
  "activePage (setResultsHeader q n l s) = activePage s"
  by (simp_all add: setResultsHeader_def Let_def)

lemma setResultsHeader_hidden [simp]:
  "resultsHeader_display (setResultsHeader None n l s) = False"
  "resultsTitle (setResultsHeader None n l s) = ''Results''"
  "resultsMeta (setResultsHeader None n l s) = NoMeta"
  by (simp_all add: setResultsHeader_def truthy_def)

lemma setResultsHeader_shown:
  "q \<noteq> [] \<Longrightarrow> resultsHeader_display (setResultsHeader (Some q) n l s) = True"
  "q \<noteq> [] \<Longrightarrow> resultsTitle (setResultsHeader (Some q) n l s) =
     ''Showing results for: \"'' @ q @ ''\"''"
  "q \<noteq> [] \<Longrightarrow> resultsMeta (setResultsHeader (Some q) n l s) =
     Meta (if truthy l then ''Category: '' @ template l else ''Category: (no match)'') n"
  by (simp_all add: setResultsHeader_def truthy_def template_def Let_def)

lemma renderRecommendations_fields [simp]:
  "apiData (renderRecommendations xs l s) = apiData s"
  "clockIntervalId (renderRecommendations xs l s) = clockIntervalId s"
  "timers (renderRecommendations xs l s) = timers s"
  "last_handle (renderRecommendations xs l s) = last_handle s"
  "searchInput (renderRecommendations xs l s) = searchInput s"
  "resultsHeader_display (renderRecommendations xs l s) = resultsHeader_display s"
  "resultsTitle (renderRecommendations xs l s) = resultsTitle s"
  "resultsMeta (renderRecommendations xs l s) = resultsMeta s"
  "timeBox (renderRecommendations xs l s) = timeBox s"
  "activePage (renderRecommendations xs l s) = activePage s"
  by (simp_all add: renderRecommendations_def Let_def)

lemma renderRecommendations_empty_state:
  "emptyState_display (renderRecommendations xs l s) = (xs = [])"
  "emptyState_text (renderRecommendations xs l s) =
     (if xs = [] then ''No recommendations found for that search.'' else [])"
  by (simp_all add: renderRecommendations_def Let_def)

lemma stopClock_fields [simp]:
  "apiData (stopClock s) = apiData s"
  "last_handle (stopClock s) = last_handle s"
  "searchInput (stopClock s) = searchInput s"
  "results (stopClock s) = results s"
  "emptyState_display (stopClock s) = emptyState_display s"
  "emptyState_text (stopClock s) = emptyState_text s"
  "resultsHeader_display (stopClock s) = resultsHeader_display s"
  "resultsTitle (stopClock s) = resultsTitle s"
  "resultsMeta (stopClock s) = resultsMeta s"
  "timeBox (stopClock s) = timeBox s"
  "activePage (stopClock s) = activePage s"
  by (simp_all add: stopClock_def clearInterval_def split: option.splits)

lemma stopClock_stops:
  assumes "clock_inv s"
  shows "timers (stopClock s) = []" and "clockIntervalId (stopClock s) = None"
proof -
  show "timers (stopClock s) = []"
  proof (cases "clockIntervalId s")
    case None
    with assms show ?thesis by (simp add: stopClock_def clock_inv_def)
  next
    case (Some h)
    with assms have h: "h \<noteq> 0" and t: "map fst (timers s) = [h]"
      by (simp_all add: clock_inv_def)
    from t obtain x where "timers s = [x]" "fst x = h" by auto
    with Some h show ?thesis by (simp add: stopClock_def clearInterval_def)
  qed
  show "clockIntervalId (stopClock s) = None"
    using assms by (auto simp: stopClock_def clock_inv_def split: option.splits)
qed

lemma clock_inv_stopped: "timers s = [] \<Longrightarrow> clockIntervalId s = None \<Longrightarrow> clock_inv s"
  by (simp add: clock_inv_def)

lemma clock_inv_cong:
  "clock_inv s \<Longrightarrow> clockIntervalId t = clockIntervalId s \<Longrightarrow> timers t = timers s \<Longrightarrow>
   last_handle t = last_handle s \<Longrightarrow> clock_inv t"
  by (simp add: clock_inv_def split: option.splits)

subsection \<open>Starting a clock\<close>

lemma updateSingleClock_fields [simp]:
  "apiData (snd (updateSingleClock clk n tz s)) = apiData s"
  "clockIntervalId (snd (updateSingleClock clk n tz s)) = clockIntervalId s"
  "timers (snd (updateSingleClock clk n tz s)) = timers s"
  "last_handle (snd (updateSingleClock clk n tz s)) = last_handle s"
  "searchInput (snd (updateSingleClock clk n tz s)) = searchInput s"
  "results (snd (updateSingleClock clk n tz s)) = results s"
  "emptyState_display (snd (updateSingleClock clk n tz s)) = emptyState_display s"
  "emptyState_text (snd (updateSingleClock clk n tz s)) = emptyState_text s"
  "resultsHeader_display (snd (updateSingleClock clk n tz s)) = resultsHeader_display s"
  "resultsTitle (snd (updateSingleClock clk n tz s)) = resultsTitle s"
  "resultsMeta (snd (updateSingleClock clk n tz s)) = resultsMeta s"
  "activePage (snd (updateSingleClock clk n tz s)) = activePage s"
  by (simp_all add: updateSingleClock_def split: sum.splits)

lemma updateMultiClock_fields [simp]:
  "apiData (snd (updateMultiClock clk l s)) = apiData s"
  "clockIntervalId (snd (updateMultiClock clk l s)) = clockIntervalId s"
  "timers (snd (updateMultiClock clk l s)) = timers s"
  "last_handle (snd (updateMultiClock clk l s)) = last_handle s"
  "searchInput (snd (updateMultiClock clk l s)) = searchInput s"
  "results (snd (updateMultiClock clk l s)) = results s"
  "emptyState_display (snd (updateMultiClock clk l s)) = emptyState_display s"
  "emptyState_text (snd (updateMultiClock clk l s)) = emptyState_text s"
  "resultsHeader_display (snd (updateMultiClock clk l s)) = resultsHeader_display s"
  "resultsTitle (snd (updateMultiClock clk l s)) = resultsTitle s"
  "resultsMeta (snd (updateMultiClock clk l s)) = resultsMeta s"
  "activePage (snd (updateMultiClock clk l s)) = activePage s"
  by (simp_all add: updateMultiClock_def split: sum.splits)

lemma updateSingleClock_completion:
  "fst (updateSingleClock clk n tz s) =
     (case toLocaleTimeString clk tz of Inl e \<Rightarrow> Threw e | Inr t \<Rightarrow> Returned)"
  by (simp add: updateSingleClock_def split: sum.splits)

lemma updateMultiClock_completion:
  "fst (updateMultiClock clk l s) =
     (case clock_lines clk l of Inl e \<Rightarrow> Threw e | Inr t \<Rightarrow> Returned)"
  by (simp add: updateMultiClock_def split: sum.splits)

text \<open>What a clock start leaves in the table of intervals, given what it found there.\<close>

lemma startSingleClock_timers:
  "timers (snd (startSingleClock clk n tz s)) =
     (if tz_truthy tz \<and> fst (updateSingleClock clk n tz (stopClock s)) = Returned
      then timers (stopClock s) @ [(Suc (last_handle s), SingleTick n tz)]
      else timers (stopClock s))"
  "clockIntervalId (snd (startSingleClock clk n tz s)) =
     (if tz_truthy tz \<and> fst (updateSingleClock clk n tz (stopClock s)) = Returned
      then Some (Suc (last_handle s))
      else clockIntervalId (stopClock s))"
  "fst (startSingleClock clk n tz s) =
     (if tz_truthy tz then fst (updateSingleClock clk n tz (stopClock s)) else Returned)"
  "last_handle (snd (startSingleClock clk n tz s)) =
     (if tz_truthy tz \<and> fst (updateSingleClock clk n tz (stopClock s)) = Returned
      then Suc (last_handle s)
      else last_handle s)"
proof -
  obtain r u where u: "updateSingleClock clk n tz (stopClock s) = (r, u)"
    by (cases "updateSingleClock clk n tz (stopClock s)")
  then have f: "timers u = timers (stopClock s)" "clockIntervalId u = clockIntervalId (stopClock s)"
     "last_handle u = last_handle s"
    using updateSingleClock_fields(2,3,4) [of clk n tz "stopClock s"] by simp_all
  show "timers (snd (startSingleClock clk n tz s)) =
     (if tz_truthy tz \<and> fst (updateSingleClock clk n tz (stopClock s)) = Returned
      then timers (stopClock s) @ [(Suc (last_handle s), SingleTick n tz)]
      else timers (stopClock s))"
    using u f by (cases r) (simp_all add: startSingleClock_def setInterval_def Let_def)
  show "clockIntervalId (snd (startSingleClock clk n tz s)) =
     (if tz_truthy tz \<and> fst (updateSingleClock clk n tz (stopClock s)) = Returned
      then Some (Suc (last_handle s))
      else clockIntervalId (stopClock s))"
    using u f by (cases r) (simp_all add: startSingleClock_def setInterval_def Let_def)
  show "fst (startSingleClock clk n tz s) =
     (if tz_truthy tz then fst (updateSingleClock clk n tz (stopClock s)) else Returned)"
    using u f by (cases r) (simp_all add: startSingleClock_def setInterval_def Let_def)
  show "last_handle (snd (startSingleClock clk n tz s)) =
     (if tz_truthy tz \<and> fst (updateSingleClock clk n tz (stopClock s)) = Returned
      then Suc (last_handle s)
      else last_handle s)"
    using u f by (cases r) (simp_all add: startSingleClock_def setInterval_def Let_def)
qed

lemma startMultiClock_timers:
  "timers (snd (startMultiClock clk l s)) =
     (if l \<noteq> [] \<and> fst (updateMultiClock clk l (stopClock s)) = Returned
      then timers (stopClock s) @ [(Suc (last_handle s), MultiTick l)]
      else timers (stopClock s))"
  "clockIntervalId (snd (startMultiClock clk l s)) =
     (if l \<noteq> [] \<and> fst (updateMultiClock clk l (stopClock s)) = Returned
      then Some (Suc (last_handle s))
      else clockIntervalId (stopClock s))"
  "fst (startMultiClock clk l s) =
     (if l \<noteq> [] then fst (updateMultiClock clk l (stopClock s)) else Returned)"
  "last_handle (snd (startMultiClock clk l s)) =
     (if l \<noteq> [] \<and> fst (updateMultiClock clk l (stopClock s)) = Returned
      then Suc (last_handle s)
      else last_handle s)"
proof -
  obtain r u where u: "updateMultiClock clk l (stopClock s) = (r, u)"
    by (cases "updateMultiClock clk l (stopClock s)")
  then have f: "timers u = timers (stopClock s)" "clockIntervalId u = clockIntervalId (stopClock s)"
     "last_handle u = last_handle s"
    using updateMultiClock_fields(2,3,4) [of clk l "stopClock s"] by simp_all
  show "timers (snd (startMultiClock clk l s)) =
     (if l \<noteq> [] \<and> fst (updateMultiClock clk l (stopClock s)) = Returned
      then timers (stopClock s) @ [(Suc (last_handle s), MultiTick l)]
      else timers (stopClock s))"
    using u f by (cases r) (simp_all add: startMultiClock_def setInterval_def Let_def)
  show "clockIntervalId (snd (startMultiClock clk l s)) =
     (if l \<noteq> [] \<and> fst (updateMultiClock clk l (stopClock s)) = Returned
      then Some (Suc (last_handle s))
      else clockIntervalId (stopClock s))"
    using u f by (cases r) (simp_all add: startMultiClock_def setInterval_def Let_def)
  show "fst (startMultiClock clk l s) =
     (if l \<noteq> [] then fst (updateMultiClock clk l (stopClock s)) else Returned)"
    using u f by (cases r) (simp_all add: startMultiClock_def setInterval_def Let_def)
  show "last_handle (snd (startMultiClock clk l s)) =
     (if l \<noteq> [] \<and> fst (updateMultiClock clk l (stopClock s)) = Returned
      then Suc (last_handle s)
      else last_handle s)"
    using u f by (cases r) (simp_all add: startMultiClock_def setInterval_def Let_def)
qed

lemma startSingleClock_apiData [simp]: "apiData (snd (startSingleClock clk n tz s)) = apiData s"
proof -
  obtain r u where u: "updateSingleClock clk n tz (stopClock s) = (r, u)"
    by (cases "updateSingleClock clk n tz (stopClock s)")
  then have "apiData u = apiData s"
    using updateSingleClock_fields(1) [of clk n tz "stopClock s"] by simp
  with u show ?thesis
    by (cases r) (simp_all add: startSingleClock_def setInterval_def Let_def)
qed

lemma startMultiClock_apiData [simp]: "apiData (snd (startMultiClock clk l s)) = apiData s"
proof -
  obtain r u where u: "updateMultiClock clk l (stopClock s) = (r, u)"
    by (cases "updateMultiClock clk l (stopClock s)")
  then have "apiData u = apiData s"
    using updateMultiClock_fields(1) [of clk l "stopClock s"] by simp
  with u show ?thesis
    by (cases r) (simp_all add: startMultiClock_def setInterval_def Let_def)
qed

lemma startSingleClock_page [simp]:
  "searchInput (snd (startSingleClock clk n tz s)) = searchInput s"
  "results (snd (startSingleClock clk n tz s)) = results s"
  "emptyState_display (snd (startSingleClock clk n tz s)) = emptyState_display s"
  "emptyState_text (snd (startSingleClock clk n tz s)) = emptyState_text s"
  "resultsHeader_display (snd (startSingleClock clk n tz s)) = resultsHeader_display s"
  "resultsTitle (snd (startSingleClock clk n tz s)) = resultsTitle s"
  "resultsMeta (snd (startSingleClock clk n tz s)) = resultsMeta s"
  "activePage (snd (startSingleClock clk n tz s)) = activePage s"
proof -
  obtain r u where u: "updateSingleClock clk n tz (stopClock s) = (r, u)"
    by (cases "updateSingleClock clk n tz (stopClock s)")
  then have f: "searchInput u = searchInput s" "results u = results s"
    "emptyState_display u = emptyState_display s" "emptyState_text u = emptyState_text s"
    "resultsHeader_display u = resultsHeader_display s" "resultsTitle u = resultsTitle s"
    "resultsMeta u = resultsMeta s" "activePage u = activePage s"
    using updateSingleClock_fields(5-12) [of clk n tz "stopClock s"] by simp_all
  have e: "snd (startSingleClock clk n tz s) =
      (if \<not> tz_truthy tz
       then setTimeBox (Some (''Current time: (time zone not configured for '' @
                                 template n @ '')'')) (stopClock s)
       else if r = Returned
       then u\<lparr>timers := timers u @ [(Suc (last_handle u), SingleTick n tz)],
              last_handle := Suc (last_handle u), clockIntervalId := Some (Suc (last_handle u))\<rparr>
       else u)"
    using u by (cases r) (simp_all add: startSingleClock_def setInterval_def Let_def)
  show "searchInput (snd (startSingleClock clk n tz s)) = searchInput s"
    "results (snd (startSingleClock clk n tz s)) = results s"
    "emptyState_display (snd (startSingleClock clk n tz s)) = emptyState_display s"
    "emptyState_text (snd (startSingleClock clk n tz s)) = emptyState_text s"
    "resultsHeader_display (snd (startSingleClock clk n tz s)) = resultsHeader_display s"
    "resultsTitle (snd (startSingleClock clk n tz s)) = resultsTitle s"
    "resultsMeta (snd (startSingleClock clk n tz s)) = resultsMeta s"
    "activePage (snd (startSingleClock clk n tz s)) = activePage s"
    by (simp_all add: e f)
qed

lemma startMultiClock_page [simp]:
  "searchInput (snd (startMultiClock clk l s)) = searchInput s"
  "results (snd (startMultiClock clk l s)) = results s"
  "emptyState_display (snd (startMultiClock clk l s)) = emptyState_display s"
  "emptyState_text (snd (startMultiClock clk l s)) = emptyState_text s"
  "resultsHeader_display (snd (startMultiClock clk l s)) = resultsHeader_display s"
  "resultsTitle (snd (startMultiClock clk l s)) = resultsTitle s"
  "resultsMeta (snd (startMultiClock clk l s)) = resultsMeta s"
  "activePage (snd (startMultiClock clk l s)) = activePage s"
proof -
  obtain r u where u: "updateMultiClock clk l (stopClock s) = (r, u)"
    by (cases "updateMultiClock clk l (stopClock s)")
  then have f: "searchInput u = searchInput s" "results u = results s"
    "emptyState_display u = emptyState_display s" "emptyState_text u = emptyState_text s"
    "resultsHeader_display u = resultsHeader_display s" "resultsTitle u = resultsTitle s"
    "resultsMeta u = resultsMeta s" "activePage u = activePage s"
    using updateMultiClock_fields(5-12) [of clk l "stopClock s"] by simp_all
  have e: "snd (startMultiClock clk l s) =
      (if l = [] then setTimeBox None (stopClock s)
       else if r = Returned
       then u\<lparr>timers := timers u @ [(Suc (last_handle u), MultiTick l)],
              last_handle := Suc (last_handle u), clockIntervalId := Some (Suc (last_handle u))\<rparr>
       else u)"
    using u by (cases r) (simp_all add: startMultiClock_def setInterval_def Let_def)
  show "searchInput (snd (startMultiClock clk l s)) = searchInput s"
    "results (snd (startMultiClock clk l s)) = results s"
    "emptyState_display (snd (startMultiClock clk l s)) = emptyState_display s"
    "emptyState_text (snd (startMultiClock clk l s)) = emptyState_text s"
    "resultsHeader_display (snd (startMultiClock clk l s)) = resultsHeader_display s"
    "resultsTitle (snd (startMultiClock clk l s)) = resultsTitle s"
    "resultsMeta (snd (startMultiClock clk l s)) = resultsMeta s"
    "activePage (snd (startMultiClock clk l s)) = activePage s"
    by (simp_all add: e f)
qed

lemma startSingleClock_inv: "clock_inv s \<Longrightarrow> clock_inv (snd (startSingleClock clk n tz s))"
  by (simp add: clock_inv_def startSingleClock_timers stopClock_stops)

lemma startMultiClock_inv: "clock_inv s \<Longrightarrow> clock_inv (snd (startMultiClock clk l s))"
  by (simp add: clock_inv_def startMultiClock_timers stopClock_stops)

subsection \<open>The branches of the search\<close>

lemma handleSearch_EmptyQuery:
  "trim (searchInput s) = [] \<Longrightarrow>
   handleSearch clk s =
     (EmptyQuery, Returned,
      renderEmpty
        ''Type a keyword like \"beach\", \"temple\", \"country\", or a country/city name.''
        (setResultsHeader None 0 None (setTimeBox None (stopClock s))))"
  by (simp add: handleSearch_def Let_def)

lemma handleSearch_DataNotLoaded:
  "trim (searchInput s) \<noteq> [] \<Longrightarrow> apiData s = None \<Longrightarrow>
   handleSearch clk s =
     (DataNotLoaded, Returned,
      renderEmpty ''Data is still loading. Try again in a moment.''
        (setResultsHeader None 0 None (setTimeBox None (stopClock s))))"
  by (simp add: handleSearch_def Let_def)

lemma handleSearch_BeachTier:
  "trim (searchInput s) \<noteq> [] \<Longrightarrow> apiData s = Some d \<Longrightarrow>
   normalizeKeyword (trim (searchInput s)) = ''beach'' \<Longrightarrow>
   handleSearch clk s =
     (BeachTier, Returned,
      renderRecommendations (or_empty_array (beaches d)) (Some ''Beaches'')
        (setResultsHeader (Some (trim (searchInput s))) (length (or_empty_array (beaches d)))
           (Some ''Beaches'') (setTimeBox None (stopClock s))))"
  by (simp add: handleSearch_def Let_def)

lemma handleSearch_TempleTier:
  "trim (searchInput s) \<noteq> [] \<Longrightarrow> apiData s = Some d \<Longrightarrow>
   normalizeKeyword (trim (searchInput s)) = ''temple'' \<Longrightarrow>
   handleSearch clk s =
     (TempleTier, Returned,
      renderRecommendations (or_empty_array (temples d)) (Some ''Temples'')
        (setResultsHeader (Some (trim (searchInput s))) (length (or_empty_array (temples d)))
           (Some ''Temples'') (setTimeBox None (stopClock s))))"
  by (simp add: handleSearch_def Let_def)

lemma handleSearch_CountryTier:
  "trim (searchInput s) \<noteq> [] \<Longrightarrow> apiData s = Some d \<Longrightarrow>
   normalizeKeyword (trim (searchInput s)) = ''country'' \<Longrightarrow>
   handleSearch clk s =
     (CountryTier,
      startMultiClock clk (getTimeZonesForCountries (map c_name (or_empty_array (countries d))))
        (renderRecommendations (flattenAllCities (or_empty_array (countries d)))
           (Some ''Countries'')
           (setResultsHeader (Some (trim (searchInput s)))
              (length (flattenAllCities (or_empty_array (countries d))))
              (Some ''Countries (Cities)'') s)))"
  by (simp add: handleSearch_def Let_def split: prod.splits)

lemma handleSearch_ExactCountryTier:
  "trim (searchInput s) \<noteq> [] \<Longrightarrow> apiData s = Some d \<Longrightarrow>
   normalizeKeyword (trim (searchInput s)) = k \<Longrightarrow>
   k \<noteq> ''beach'' \<Longrightarrow> k \<noteq> ''temple'' \<Longrightarrow> k \<noteq> ''country'' \<Longrightarrow>
   exactCountry k d = Some c \<Longrightarrow>
   handleSearch clk s =
     (ExactCountryTier,
      startSingleClock clk (c_name c) (getTimeZoneForCountry (c_name c))
        (renderRecommendations (or_empty_array (c_cities c)) (c_name c)
           (setResultsHeader (Some (trim (searchInput s))) (length (or_empty_array (c_cities c)))
              (Some (template (c_name c) @ '' (Cities)'')) s)))"
  by (simp add: handleSearch_def Let_def split: prod.splits)

lemma handleSearch_PartialCountryTier:
  "trim (searchInput s) \<noteq> [] \<Longrightarrow> apiData s = Some d \<Longrightarrow>
   normalizeKeyword (trim (searchInput s)) = k \<Longrightarrow>
   k \<noteq> ''beach'' \<Longrightarrow> k \<noteq> ''temple'' \<Longrightarrow> k \<noteq> ''country'' \<Longrightarrow>
   exactCountry k d = None \<Longrightarrow> partialCountry k d = Some c \<Longrightarrow>
   handleSearch clk s =
     (PartialCountryTier,
      startSingleClock clk (c_name c) (getTimeZoneForCountry (c_name c))
        (renderRecommendations (or_empty_array (c_cities c)) (c_name c)
           (setResultsHeader (Some (trim (searchInput s))) (length (or_empty_array (c_cities c)))
              (Some (template (c_name c) @ '' (Cities)'')) s)))"
  by (simp add: handleSearch_def Let_def split: prod.splits)

lemma handleSearch_CityTier_clock:
  "trim (searchInput s) \<noteq> [] \<Longrightarrow> apiData s = Some d \<Longrightarrow>
   normalizeKeyword (trim (searchInput s)) = k \<Longrightarrow>
   k \<noteq> ''beach'' \<Longrightarrow> k \<noteq> ''temple'' \<Longrightarrow> k \<noteq> ''country'' \<Longrightarrow>
   exactCountry k d = None \<Longrightarrow> partialCountry k d = None \<Longrightarrow>
   matchedCities k d = first # others \<Longrightarrow>
   truthy (inferCountryFromCityName (p_name first)) \<Longrightarrow>
   handleSearch clk s =
     (CityTier,
      startSingleClock clk (inferCountryFromCityName (p_name first))
        (getTimeZoneForCountry (inferCountryFromCityName (p_name first)))
        (renderRecommendations (first # others) (Some ''City'')
           (setResultsHeader (Some (trim (searchInput s))) (length (first # others))
              (Some ''City Results'') s)))"
  by (simp add: handleSearch_def Let_def split: prod.splits)

lemma handleSearch_CityTier_no_clock:
  "trim (searchInput s) \<noteq> [] \<Longrightarrow> apiData s = Some d \<Longrightarrow>
   normalizeKeyword (trim (searchInput s)) = k \<Longrightarrow>
   k \<noteq> ''beach'' \<Longrightarrow> k \<noteq> ''temple'' \<Longrightarrow> k \<noteq> ''country'' \<Longrightarrow>
   exactCountry k d = None \<Longrightarrow> partialCountry k d = None \<Longrightarrow>
   matchedCities k d = first # others \<Longrightarrow>
   \<not> truthy (inferCountryFromCityName (p_name first)) \<Longrightarrow>
   handleSearch clk s =
     (CityTier, Returned,
      setTimeBox None (stopClock
        (renderRecommendations (first # others) (Some ''City'')
           (setResultsHeader (Some (trim (searchInput s))) (length (first # others))
              (Some ''City Results'') s))))"
  by (simp add: handleSearch_def Let_def split: prod.splits)

lemma handleSearch_NoMatch:
  "trim (searchInput s) \<noteq> [] \<Longrightarrow> apiData s = Some d \<Longrightarrow>
   normalizeKeyword (trim (searchInput s)) = k \<Longrightarrow>
   k \<noteq> ''beach'' \<Longrightarrow> k \<noteq> ''temple'' \<Longrightarrow> k \<noteq> ''country'' \<Longrightarrow>
   exactCountry k d = None \<Longrightarrow> partialCountry k d = None \<Longrightarrow>
   matchedCities k d = [] \<Longrightarrow>
   handleSearch clk s =
     (NoMatch, Returned,
      renderEmpty
        ''No matches found. Try \"beach\", \"temple\", \"country\", or a country/city name.''
        (setResultsHeader (Some (trim (searchInput s))) 0 None (setTimeBox None (stopClock s))))"
  by (simp add: handleSearch_def Let_def split: prod.splits)

lemma handleSearch_cases [consumes 0, case_names EmptyQuery DataNotLoaded BeachTier TempleTier
    CountryTier ExactCountryTier PartialCountryTier CityTier_clock CityTier_no_clock NoMatch]:
  fixes s :: state
  defines "k \<equiv> normalizeKeyword (trim (searchInput s))"
  assumes "trim (searchInput s) = [] \<Longrightarrow> P"
    and "trim (searchInput s) \<noteq> [] \<Longrightarrow> apiData s = None \<Longrightarrow> P"
    and "\<And>d. trim (searchInput s) \<noteq> [] \<Longrightarrow> apiData s = Some d \<Longrightarrow> k = ''beach'' \<Longrightarrow> P"
    and "\<And>d. trim (searchInput s) \<noteq> [] \<Longrightarrow> apiData s = Some d \<Longrightarrow> k = ''temple'' \<Longrightarrow> P"
    and "\<And>d. trim (searchInput s) \<noteq> [] \<Longrightarrow> apiData s = Some d \<Longrightarrow> k = ''country'' \<Longrightarrow> P"
    and "\<And>d c. trim (searchInput s) \<noteq> [] \<Longrightarrow> apiData s = Some d \<Longrightarrow>
          k \<noteq> ''beach'' \<Longrightarrow> k \<noteq> ''temple'' \<Longrightarrow> k \<noteq> ''country'' \<Longrightarrow>
          exactCountry k d = Some c \<Longrightarrow> P"
    and "\<And>d c. trim (searchInput s) \<noteq> [] \<Longrightarrow> apiData s = Some d \<Longrightarrow>
          k \<noteq> ''beach'' \<Longrightarrow> k \<noteq> ''temple'' \<Longrightarrow> k \<noteq> ''country'' \<Longrightarrow>
          exactCountry k d = None \<Longrightarrow> partialCountry k d = Some c \<Longrightarrow> P"
    and "\<And>d first others. trim (searchInput s) \<noteq> [] \<Longrightarrow> apiData s = Some d \<Longrightarrow>
          k \<noteq> ''beach'' \<Longrightarrow> k \<noteq> ''temple'' \<Longrightarrow> k \<noteq> ''country'' \<Longrightarrow>
          exactCountry k d = None \<Longrightarrow> partialCountry k d = None \<Longrightarrow>
          matchedCities k d = first # others \<Longrightarrow>
          truthy (inferCountryFromCityName (p_name first)) \<Longrightarrow> P"
    and "\<And>d first others. trim (searchInput s) \<noteq> [] \<Longrightarrow> apiData s = Some d \<Longrightarrow>
          k \<noteq> ''beach'' \<Longrightarrow> k \<noteq> ''temple'' \<Longrightarrow> k \<noteq> ''country'' \<Longrightarrow>
          exactCountry k d = None \<Longrightarrow> partialCountry k d = None \<Longrightarrow>
          matchedCities k d = first # others \<Longrightarrow>
          \<not> truthy (inferCountryFromCityName (p_name first)) \<Longrightarrow> P"
    and "\<And>d. trim (searchInput s) \<noteq> [] \<Longrightarrow> apiData s = Some d \<Longrightarrow>
          k \<noteq> ''beach'' \<Longrightarrow> k \<noteq> ''temple'' \<Longrightarrow> k \<noteq> ''country'' \<Longrightarrow>
          exactCountry k d = None \<Longrightarrow> partialCountry k d = None \<Longrightarrow>
          matchedCities k d = [] \<Longrightarrow> P"
  shows P
proof (cases "trim (searchInput s) = []")
  case True
  then show ?thesis by (rule assms(2))
next
  case raw: False
  show ?thesis
  proof (cases "apiData s")
    case None
    with raw show ?thesis by (rule assms(3))
  next
    case (Some d)
    show ?thesis
    proof (cases "k = ''beach'' \<or> k = ''temple'' \<or> k = ''country''")
      case True
      with raw Some show ?thesis using assms(4,5,6) by blast
    next
      case False
      then have k: "k \<noteq> ''beach''" "k \<noteq> ''temple''" "k \<noteq> ''country''" by simp_all
      show ?thesis
      proof (cases "exactCountry k d")
        case (Some c)
        with raw \<open>apiData s = Some d\<close> k show ?thesis using assms(7) by blast
      next
        case ex: None
        show ?thesis
        proof (cases "partialCountry k d")
          case (Some c)
          with raw \<open>apiData s = Some d\<close> k ex show ?thesis using assms(8) by blast
        next
          case pa: None
          show ?thesis
          proof (cases "matchedCities k d")
            case Nil
            with raw \<open>apiData s = Some d\<close> k ex pa show ?thesis using assms(11) by blast
          next
            case (Cons first others)
            with raw \<open>apiData s = Some d\<close> k ex pa show ?thesis using assms(9,10) by blast
          qed
        qed
      qed
    qed
  qed
qed

lemma handleSearch_inv:
  assumes inv: "clock_inv s"
  shows "clock_inv (snd (snd (handleSearch clk s)))"
proof (cases s rule: handleSearch_cases)
  case EmptyQuery
  show ?thesis
    by (simp add: handleSearch_EmptyQuery [OF EmptyQuery] clock_inv_stopped stopClock_stops [OF inv])
next
  case DataNotLoaded
  show ?thesis
    by (simp add: handleSearch_DataNotLoaded [OF DataNotLoaded] clock_inv_stopped
        stopClock_stops [OF inv])
next
  case (BeachTier d)
  show ?thesis
    by (simp add: handleSearch_BeachTier [OF BeachTier] clock_inv_stopped
        stopClock_stops [OF inv])
next
  case (TempleTier d)
  show ?thesis
    by (simp add: handleSearch_TempleTier [OF TempleTier] clock_inv_stopped
        stopClock_stops [OF inv])
next
  case (CountryTier d)
  have "clock_inv (renderRecommendations (flattenAllCities (or_empty_array (countries d)))
           (Some ''Countries'')
           (setResultsHeader (Some (trim (searchInput s)))
              (length (flattenAllCities (or_empty_array (countries d))))
              (Some ''Countries (Cities)'') s))"
    by (rule clock_inv_cong [OF inv]) simp_all
  then show ?thesis
    by (simp add: handleSearch_CountryTier [OF CountryTier] startMultiClock_inv)
next
  case (ExactCountryTier d c)
  have "clock_inv (renderRecommendations (or_empty_array (c_cities c)) (c_name c)
           (setResultsHeader (Some (trim (searchInput s))) (length (or_empty_array (c_cities c)))
              (Some (template (c_name c) @ '' (Cities)'')) s))"
    by (rule clock_inv_cong [OF inv]) simp_all
  then show ?thesis
    by (simp add: handleSearch_ExactCountryTier [OF ExactCountryTier(1,2) refl ExactCountryTier(3-)]
        startSingleClock_inv)
next
  case (PartialCountryTier d c)
  have "clock_inv (renderRecommendations (or_empty_array (c_cities c)) (c_name c)
           (setResultsHeader (Some (trim (searchInput s))) (length (or_empty_array (c_cities c)))
              (Some (template (c_name c) @ '' (Cities)'')) s))"
    by (rule clock_inv_cong [OF inv]) simp_all
  then show ?thesis
    by (simp add: handleSearch_PartialCountryTier
          [OF PartialCountryTier(1,2) refl PartialCountryTier(3-)] startSingleClock_inv)
next
  case (CityTier_clock d first others)
  have "clock_inv (renderRecommendations (first # others) (Some ''City'')
           (setResultsHeader (Some (trim (searchInput s))) (length (first # others))
              (Some ''City Results'') s))"
    by (rule clock_inv_cong [OF inv]) simp_all
  then show ?thesis
    by (simp add: handleSearch_CityTier_clock [OF CityTier_clock(1,2) refl CityTier_clock(3-)]
        startSingleClock_inv)
next
  case (CityTier_no_clock d first others)
  have "clock_inv (renderRecommendations (first # others) (Some ''City'')
           (setResultsHeader (Some (trim (searchInput s))) (length (first # others))
              (Some ''City Results'') s))"
    by (rule clock_inv_cong [OF inv]) simp_all
  then show ?thesis
    by (simp add: handleSearch_CityTier_no_clock
          [OF CityTier_no_clock(1,2) refl CityTier_no_clock(3-)]
        clock_inv_stopped stopClock_stops)
next
  case (NoMatch d)
  show ?thesis
    by (simp add: handleSearch_NoMatch [OF NoMatch(1,2) refl NoMatch(3-)] clock_inv_stopped
        stopClock_stops [OF inv])
qed

subsection \<open>Reachable states\<close>

lemma fire_fields [simp]:
  "apiData (fire clk h s) = apiData s"
  "clockIntervalId (fire clk h s) = clockIntervalId s"
  "timers (fire clk h s) = timers s"
  "last_handle (fire clk h s) = last_handle s"
  by (simp_all add: fire_def split: option.splits task.splits)

lemma clearResults_fields [simp]:
  "apiData (clearResults s) = apiData s"
  "last_handle (clearResults s) = last_handle s"
  "timers (clearResults s) = timers (stopClock s)"
  "clockIntervalId (clearResults s) = clockIntervalId (stopClock s)"
  by (simp_all add: clearResults_def Let_def stopClock_def clearInterval_def setResultsHeader_def
      split: option.splits)

lemma clearResults_inv: "clock_inv s \<Longrightarrow> clock_inv (clearResults s)"
  by (simp add: clock_inv_stopped stopClock_stops)

lemma showPage_apiData [simp]: "apiData (showPage p s) = apiData s"
  by (simp add: showPage_def)

lemma showPage_inv: "clock_inv s \<Longrightarrow> clock_inv (showPage p s)"
proof -
  assume inv: "clock_inv s"
  have a: "clock_inv (s\<lparr>activePage := a\<rparr>)" for a
    by (rule clock_inv_cong [OF inv]) simp_all
  show ?thesis by (simp add: showPage_def a clearResults_inv)
qed

lemma fetchApiData_inv: "clock_inv s \<Longrightarrow> clock_inv (fetchApiData r s)"
  by (cases r) (simp_all add: fetchApiData_def clock_inv_def split: option.splits)

lemma fetchApiData_failure:
  "r \<in> {FetchRejected, ResponseNotOk, JsonRejected} \<Longrightarrow>
   fetchApiData r s =
     renderEmpty
       ''Unable to load recommendation data. Check your JSON file path (and use Live Server).'' s"
  by (auto simp: fetchApiData_def)

lemma handleSearch_apiData [simp]: "apiData (snd (snd (handleSearch clk s))) = apiData s"
proof (cases s rule: handleSearch_cases)
  case EmptyQuery
  show ?thesis by (simp add: handleSearch_EmptyQuery [OF EmptyQuery])
next
  case DataNotLoaded
  show ?thesis by (simp add: handleSearch_DataNotLoaded [OF DataNotLoaded])
next
  case (BeachTier d)
  show ?thesis by (simp add: handleSearch_BeachTier [OF BeachTier])
next
  case (TempleTier d)
  show ?thesis by (simp add: handleSearch_TempleTier [OF TempleTier])
next
  case (CountryTier d)
  show ?thesis by (simp add: handleSearch_CountryTier [OF CountryTier])
next
  case (ExactCountryTier d c)
  show ?thesis
    by (simp add: handleSearch_ExactCountryTier [OF ExactCountryTier(1,2) refl ExactCountryTier(3-)])
next
  case (PartialCountryTier d c)
  show ?thesis
    by (simp add: handleSearch_PartialCountryTier
        [OF PartialCountryTier(1,2) refl PartialCountryTier(3-)])
next
  case (CityTier_clock d first others)
  show ?thesis
    by (simp add: handleSearch_CityTier_clock [OF CityTier_clock(1,2) refl CityTier_clock(3-)])
next
  case (CityTier_no_clock d first others)
  show ?thesis
    by (simp add: handleSearch_CityTier_no_clock
        [OF CityTier_no_clock(1,2) refl CityTier_no_clock(3-)])
next
  case (NoMatch d)
  show ?thesis by (simp add: handleSearch_NoMatch [OF NoMatch(1,2) refl NoMatch(3-)])
qed

lemma step_inv: "clock_inv s \<Longrightarrow> clock_inv (step clk e s)"
proof (cases e)
  case (Edit v)
  assume inv: "clock_inv s"
  have "clock_inv (s\<lparr>searchInput := v\<rparr>)" by (rule clock_inv_cong [OF inv]) simp_all
  with Edit show ?thesis by simp
next
  case ClickSearch
  assume "clock_inv s"
  with ClickSearch show ?thesis by (simp add: handleSearch_inv)
next
  case ClickReset
  assume "clock_inv s"
  with ClickReset show ?thesis by (simp add: clearResults_inv)
next
  case (Navigate p)
  assume "clock_inv s"
  with Navigate show ?thesis by (simp add: showPage_inv)
next
  case (Fire h)
  assume inv: "clock_inv s"
  have "clock_inv (fire clk h s)" by (rule clock_inv_cong [OF inv]) simp_all
  with Fire show ?thesis by simp
next
  case (FetchEnds r)
  assume "clock_inv s"
  with FetchEnds show ?thesis by (simp add: fetchApiData_inv)
qed

lemma reachable_inv: "reachable s \<Longrightarrow> clock_inv s"
proof (induction rule: reachable.induct)
  case (start s)
  then show ?case by (simp add: initial_def clock_inv_def)
next
  case (after s clk e)
  then show ?case by (simp add: step_inv)
qed

lemma clock_inv_length: "clock_inv s \<Longrightarrow> length (timers s) \<le> 1"
proof -
  assume "clock_inv s"
  then have "length (map fst (timers s)) \<le> 1"
    by (auto simp: clock_inv_def split: option.splits)
  then show ?thesis by simp
qed

lemma clock_inv_fresh: "clock_inv s \<Longrightarrow> Suc (last_handle s) \<notin> fst ` set (timers s)"
proof -
  assume inv: "clock_inv s"
  show ?thesis
  proof (cases "clockIntervalId s")
    case None
    with inv show ?thesis by (simp add: clock_inv_def)
  next
    case (Some h)
    with inv have "h \<le> last_handle s" "set (map fst (timers s)) = {h}"
      by (simp_all add: clock_inv_def)
    then show ?thesis by auto
  qed
qed

lemma step_user_apiData: "user_event e \<Longrightarrow> apiData (step clk e s) = apiData s"
  by (cases e) simp_all

lemma run_user_apiData:
  "\<forall>x \<in> set es. user_event (snd x) \<Longrightarrow> apiData (run es s) = apiData s"
proof (induction es arbitrary: s)
  case Nil
  then show ?case by simp
next
  case (Cons x es)
  obtain clk e where x: "x = (clk, e)" by (cases x)
  with Cons.prems have "user_event e" "\<forall>y \<in> set es. user_event (snd y)" by simp_all
  with Cons.IH [of "step clk e s"] x show ?case by (simp add: step_user_apiData)
qed

lemma run_reachable: "reachable s \<Longrightarrow> reachable (run es s)"
proof (induction es arbitrary: s)
  case Nil
  then show ?case by simp
next
  case (Cons x es)
  obtain clk e where x: "x = (clk, e)" by (cases x)
  from Cons.prems have "reachable (step clk e s)" by (rule reachable.after)
  with Cons.IH x show ?case by simp
qed

lemma clock_lines_valid:
  "\<forall>x \<in> set l. valid_zone clk (snd x) \<Longrightarrow> \<exists>ls. clock_lines clk l = Inr ls"
proof (induction l)
  case Nil
  then show ?case by simp
next
  case (Cons x l)
  obtain label tz where x: "x = (label, tz)" by (cases x)
  from Cons.prems x obtain t where t: "toLocaleTimeString clk tz = Inr t"
    by (auto simp: valid_zone_def split: sum.splits)
  from Cons obtain ls where "clock_lines clk l = Inr ls" by auto
  with x t show ?case by simp
qed

text \<open>C3: in every reachable state at most one repeating clock task is active. Starting a
  single or a multiple clock in such a state leaves at most one task and none of the tasks
  that were active before; a start with a truthy time zone that the runtime accepts, or with
  a non-empty list of zones that the runtime accepts, leaves exactly one.\<close>

theorem one_clock_task:
  assumes "reachable s"
  shows "length (timers s) \<le> 1 \<and>
    length (timers (snd (startSingleClock clk n tz s))) \<le> 1 \<and>
    set (timers (snd (startSingleClock clk n tz s))) \<inter> set (timers s) = {} \<and>
    (tz_truthy tz \<and> valid_zone clk tz \<longrightarrow>
       length (timers (snd (startSingleClock clk n tz s))) = 1) \<and>
    length (timers (snd (startMultiClock clk l s))) \<le> 1 \<and>
    set (timers (snd (startMultiClock clk l s))) \<inter> set (timers s) = {} \<and>
    (l \<noteq> [] \<and> (\<forall>x \<in> set l. valid_zone clk (snd x)) \<longrightarrow>
       length (timers (snd (startMultiClock clk l s))) = 1)"
proof -
  from assms have inv: "clock_inv s" by (rule reachable_inv)
  have stop: "timers (stopClock s) = []" using inv by (rule stopClock_stops)
  have fresh: "Suc (last_handle s) \<notin> fst ` set (timers s)" using inv by (rule clock_inv_fresh)
  have 1: "length (timers s) \<le> 1" using inv by (rule clock_inv_length)
  have 2: "length (timers (snd (startSingleClock clk n tz s))) \<le> 1"
    by (simp add: startSingleClock_timers stop)
  have 3: "set (timers (snd (startSingleClock clk n tz s))) \<inter> set (timers s) = {}"
    using fresh by (auto simp: startSingleClock_timers stop image_iff)
  have 4: "tz_truthy tz \<and> valid_zone clk tz \<longrightarrow>
       length (timers (snd (startSingleClock clk n tz s))) = 1"
    by (auto simp: startSingleClock_timers stop updateSingleClock_completion valid_zone_def
        split: sum.splits)
  have 5: "length (timers (snd (startMultiClock clk l s))) \<le> 1"
    by (simp add: startMultiClock_timers stop)
  have 6: "set (timers (snd (startMultiClock clk l s))) \<inter> set (timers s) = {}"
    using fresh by (auto simp: startMultiClock_timers stop image_iff)
  have 7: "l \<noteq> [] \<and> (\<forall>x \<in> set l. valid_zone clk (snd x)) \<longrightarrow>
       length (timers (snd (startMultiClock clk l s))) = 1"
  proof
    assume a: "l \<noteq> [] \<and> (\<forall>x \<in> set l. valid_zone clk (snd x))"
    then obtain ls where "clock_lines clk l = Inr ls" using clock_lines_valid by blast
    with a show "length (timers (snd (startMultiClock clk l s))) = 1"
      by (simp add: startMultiClock_timers stop updateMultiClock_completion)
  qed
  from 1 2 3 4 5 6 7 show ?thesis by blast
qed

theorem one_clock_task_witness:
  "reachable (run japan_session sample_page) \<and>
   timers (run japan_session sample_page) =
     [(1, SingleTick (Some ''Japan'') (Some (TzName ''Asia/Tokyo'')))] \<and>
   tz_truthy (Some (TzName ''Asia/Tokyo'')) \<and>
   valid_zone sample_clock (Some (TzName ''Asia/Tokyo'')) \<and>
   length (timers (snd (startSingleClock sample_clock (Some ''Japan'')
     (Some (TzName ''Asia/Tokyo'')) (run japan_session sample_page)))) = 1 \<and>
   length (timers (snd (startMultiClock sample_clock [(''Japan'', Some (TzName ''Asia/Tokyo''))]
     (run japan_session sample_page)))) = 1"
proof -
  have r: "reachable (run japan_session sample_page)"
    by (rule run_reachable, rule reachable.start) (simp add: initial_def sample_page_def)
  have t: "timers (run japan_session sample_page) =
     [(1, SingleTick (Some ''Japan'') (Some (TzName ''Asia/Tokyo'')))]"
    by code_simp
  have v: "tz_truthy (Some (TzName ''Asia/Tokyo''))"
    "valid_zone sample_clock (Some (TzName ''Asia/Tokyo''))"
    by code_simp+
  show ?thesis
    using one_clock_task [OF r, of sample_clock "Some ''Japan''" "Some (TzName ''Asia/Tokyo'')"
        "[(''Japan'', Some (TzName ''Asia/Tokyo''))]"] r t v
    by simp
qed

subsection \<open>Rejected searches\<close>

text \<open>C5: when the search box is empty or holds white space only, the search is rejected at
  the first check, in every reachable state: it returns from the empty-query branch, shows the
  guidance message, leaves no result card, hides the results header, leaves no interval
  active and no handle stored, and clears the time box where the page has one.\<close>

theorem empty_query_rejected:
  assumes "reachable s" and "\<forall>c \<in> set (searchInput s). is_space c"
  shows "fst (handleSearch clk s) = EmptyQuery \<and>
    fst (snd (handleSearch clk s)) = Returned \<and>
    results (snd (snd (handleSearch clk s))) = [] \<and>
    emptyState_display (snd (snd (handleSearch clk s))) \<and>
    emptyState_text (snd (snd (handleSearch clk s))) =
      ''Type a keyword like \"beach\", \"temple\", \"country\", or a country/city name.'' \<and>
    \<not> resultsHeader_display (snd (snd (handleSearch clk s))) \<and>
    resultsMeta (snd (snd (handleSearch clk s))) = NoMeta \<and>
    timers (snd (snd (handleSearch clk s))) = [] \<and>
    clockIntervalId (snd (snd (handleSearch clk s))) = None \<and>
    timeBox (snd (snd (handleSearch clk s))) = map_option (\<lambda>_. (False, [])) (timeBox s)"
proof -
  from assms(1) have inv: "clock_inv s" by (rule reachable_inv)
  from assms(2) have raw: "trim (searchInput s) = []" by (rule trim_spaces)
  show ?thesis
    by (simp add: handleSearch_EmptyQuery [OF raw] stopClock_stops [OF inv] timeBox_setTimeBox
        truthy_def split: option.splits)
qed

theorem empty_query_rejected_witness:
  "reachable (run (japan_session @ [(sample_clock, Edit [CHR '' '', CHR 0x09, CHR 0xA0])])
     sample_page) \<and>
   searchInput (run (japan_session @ [(sample_clock, Edit [CHR '' '', CHR 0x09, CHR 0xA0])])
     sample_page) = [CHR '' '', CHR 0x09, CHR 0xA0] \<and>
   is_space CHR '' '' \<and> is_space (CHR 0x09) \<and> is_space (CHR 0xA0) \<and>
   length (timers (run (japan_session @ [(sample_clock, Edit [CHR '' '', CHR 0x09, CHR 0xA0])])
     sample_page)) = 1 \<and>
   length (results (run (japan_session @ [(sample_clock, Edit [CHR '' '', CHR 0x09, CHR 0xA0])])
     sample_page)) = 2 \<and>
   fst (handleSearch sample_clock
     (run (japan_session @ [(sample_clock, Edit [CHR '' '', CHR 0x09, CHR 0xA0])])
        sample_page)) = EmptyQuery \<and>
   results (snd (snd (handleSearch sample_clock
     (run (japan_session @ [(sample_clock, Edit [CHR '' '', CHR 0x09, CHR 0xA0])])
        sample_page)))) = [] \<and>
   timers (snd (snd (handleSearch sample_clock
     (run (japan_session @ [(sample_clock, Edit [CHR '' '', CHR 0x09, CHR 0xA0])])
        sample_page)))) = []"
proof -
  let ?s = "run (japan_session @ [(sample_clock, Edit [CHR '' '', CHR 0x09, CHR 0xA0])])
     sample_page"
  have r: "reachable ?s"
    by (rule run_reachable, rule reachable.start) (simp add: initial_def sample_page_def)
  have i: "searchInput ?s = [CHR '' '', CHR 0x09, CHR 0xA0]" by code_simp
  have sp: "is_space CHR '' ''" "is_space (CHR 0x09)" "is_space (CHR 0xA0)" by code_simp+
  have w: "\<forall>c \<in> set (searchInput ?s). is_space c" using i sp by simp
  have b: "length (timers ?s) = 1" "length (results ?s) = 2" by code_simp+
  show ?thesis
    using empty_query_rejected [OF r w, of sample_clock] r i sp b by simp
qed

text \<open>C6: a search with a non-empty query while no dataset is loaded returns from the
  not-loaded branch with its own message, different from the empty-query one, and no cards.
  A failed fetch shows an empty-state message and leaves the dataset as it was; after a
  failed fetch the dataset stays unset through every sequence of user events and timer
  ticks, so each later search with a non-empty query is rejected in the same way.\<close>

theorem not_loaded_rejected:
  "(apiData s = None \<and> trim (searchInput s) \<noteq> [] \<longrightarrow>
      fst (handleSearch clk s) = DataNotLoaded \<and>
      fst (snd (handleSearch clk s)) = Returned \<and>
      results (snd (snd (handleSearch clk s))) = [] \<and>
      emptyState_display (snd (snd (handleSearch clk s))) \<and>
      emptyState_text (snd (snd (handleSearch clk s))) =
        ''Data is still loading. Try again in a moment.'' \<and>
      emptyState_text (snd (snd (handleSearch clk s))) \<noteq>
        ''Type a keyword like \"beach\", \"temple\", \"country\", or a country/city name.'' \<and>
      \<not> resultsHeader_display (snd (snd (handleSearch clk s))) \<and>
      apiData (snd (snd (handleSearch clk s))) = None) \<and>
   (r \<in> {FetchRejected, ResponseNotOk, JsonRejected} \<longrightarrow>
      apiData (fetchApiData r s) = apiData s \<and>
      emptyState_display (fetchApiData r s) \<and>
      emptyState_text (fetchApiData r s) =
        ''Unable to load recommendation data. Check your JSON file path (and use Live Server).'') \<and>
   (apiData s = None \<and> r \<in> {FetchRejected, ResponseNotOk, JsonRejected} \<and>
    (\<forall>x \<in> set es. user_event (snd x)) \<and>
    trim (searchInput (run es (fetchApiData r s))) \<noteq> [] \<longrightarrow>
      apiData (run es (fetchApiData r s)) = None \<and>
      fst (handleSearch clk (run es (fetchApiData r s))) = DataNotLoaded)"
proof -
  have 1: "apiData s = None \<and> trim (searchInput s) \<noteq> [] \<longrightarrow>
      fst (handleSearch clk s) = DataNotLoaded \<and>
      fst (snd (handleSearch clk s)) = Returned \<and>
      results (snd (snd (handleSearch clk s))) = [] \<and>
      emptyState_display (snd (snd (handleSearch clk s))) \<and>
      emptyState_text (snd (snd (handleSearch clk s))) =
        ''Data is still loading. Try again in a moment.'' \<and>
      emptyState_text (snd (snd (handleSearch clk s))) \<noteq>
        ''Type a keyword like \"beach\", \"temple\", \"country\", or a country/city name.'' \<and>
      \<not> resultsHeader_display (snd (snd (handleSearch clk s))) \<and>
      apiData (snd (snd (handleSearch clk s))) = None"
  proof
    assume "apiData s = None \<and> trim (searchInput s) \<noteq> []"
    then have a: "trim (searchInput s) \<noteq> []" "apiData s = None" by simp_all
    show "fst (handleSearch clk s) = DataNotLoaded \<and>
      fst (snd (handleSearch clk s)) = Returned \<and>
      results (snd (snd (handleSearch clk s))) = [] \<and>
      emptyState_display (snd (snd (handleSearch clk s))) \<and>
      emptyState_text (snd (snd (handleSearch clk s))) =
        ''Data is still loading. Try again in a moment.'' \<and>
      emptyState_text (snd (snd (handleSearch clk s))) \<noteq>
        ''Type a keyword like \"beach\", \"temple\", \"country\", or a country/city name.'' \<and>
      \<not> resultsHeader_display (snd (snd (handleSearch clk s))) \<and>
      apiData (snd (snd (handleSearch clk s))) = None"
      by (simp add: handleSearch_DataNotLoaded [OF a] a(2))
  qed
  have 2: "r \<in> {FetchRejected, ResponseNotOk, JsonRejected} \<longrightarrow>
      apiData (fetchApiData r s) = apiData s \<and>
      emptyState_display (fetchApiData r s) \<and>
      emptyState_text (fetchApiData r s) =
        ''Unable to load recommendation data. Check your JSON file path (and use Live Server).''"
    by (simp add: fetchApiData_failure)
  have 3: "apiData s = None \<and> r \<in> {FetchRejected, ResponseNotOk, JsonRejected} \<and>
    (\<forall>x \<in> set es. user_event (snd x)) \<and>
    trim (searchInput (run es (fetchApiData r s))) \<noteq> [] \<longrightarrow>
      apiData (run es (fetchApiData r s)) = None \<and>
      fst (handleSearch clk (run es (fetchApiData r s))) = DataNotLoaded"
  proof
    assume a: "apiData s = None \<and> r \<in> {FetchRejected, ResponseNotOk, JsonRejected} \<and>
      (\<forall>x \<in> set es. user_event (snd x)) \<and>
      trim (searchInput (run es (fetchApiData r s))) \<noteq> []"
    then have "apiData (fetchApiData r s) = None" by (simp add: fetchApiData_failure)
    with a have n: "apiData (run es (fetchApiData r s)) = None"
      by (simp add: run_user_apiData)
    from a have raw: "trim (searchInput (run es (fetchApiData r s))) \<noteq> []" by simp
    show "apiData (run es (fetchApiData r s)) = None \<and>
      fst (handleSearch clk (run es (fetchApiData r s))) = DataNotLoaded"
      using n by (simp add: handleSearch_DataNotLoaded [OF raw n])
  qed
  from 1 2 3 show ?thesis by blast
qed

theorem not_loaded_rejected_witness:
  "apiData (sample_page\<lparr>searchInput := ''japan''\<rparr>) = None \<and>
   trim (searchInput (sample_page\<lparr>searchInput := ''japan''\<rparr>)) \<noteq> [] \<and>
   fst (handleSearch sample_clock (sample_page\<lparr>searchInput := ''japan''\<rparr>)) = DataNotLoaded \<and>
   emptyState_text (snd (snd (handleSearch sample_clock
     (sample_page\<lparr>searchInput := ''japan''\<rparr>)))) =
     ''Data is still loading. Try again in a moment.'' \<and>
   ResponseNotOk \<in> {FetchRejected, ResponseNotOk, JsonRejected} \<and>
   emptyState_display (fetchApiData ResponseNotOk (sample_page\<lparr>searchInput := ''japan''\<rparr>)) \<and>
   list_all (\<lambda>x. user_event (snd x)) retry_session \<and>
   trim (searchInput (run retry_session
     (fetchApiData ResponseNotOk (sample_page\<lparr>searchInput := ''japan''\<rparr>)))) \<noteq> [] \<and>
   fst (handleSearch sample_clock (run retry_session
     (fetchApiData ResponseNotOk (sample_page\<lparr>searchInput := ''japan''\<rparr>)))) = DataNotLoaded"
proof -
  let ?s = "sample_page\<lparr>searchInput := ''japan''\<rparr>"
  have a: "apiData ?s = None" by (simp add: sample_page_def)
  have b: "trim (searchInput ?s) \<noteq> []" by code_simp
  have c: "ResponseNotOk \<in> {FetchRejected, ResponseNotOk, JsonRejected}" by simp
  have d: "list_all (\<lambda>x. user_event (snd x)) retry_session" by code_simp
  then have d': "\<forall>x \<in> set retry_session. user_event (snd x)" by (simp add: list_all_iff)
  have e: "trim (searchInput (run retry_session (fetchApiData ResponseNotOk ?s))) \<noteq> []"
    by code_simp
  show ?thesis
    using not_loaded_rejected [of ?s sample_clock ResponseNotOk retry_session] a b c d d' e
    by simp
qed

subsection \<open>Match tiers\<close>

lemma includes_str_sublist: "includes_str s k = sublist k s"
proof (induction s)
  case Nil
  then show ?case by simp
next
  case (Cons c cs)
  then show ?case by (simp add: sublist_Cons_right)
qed

lemma normalizeKeyword_Nil: "normalizeKeyword [] = []"
  by code_simp

lemma handleSearch_exit:
  assumes "trim (searchInput s) \<noteq> []" and "apiData s = Some d"
    and "k = normalizeKeyword (trim (searchInput s))"
  shows "fst (handleSearch clk s) =
    (if k = ''beach'' then BeachTier
     else if k = ''temple'' then TempleTier
     else if k = ''country'' then CountryTier
     else if exactCountry k d \<noteq> None then ExactCountryTier
     else if partialCountry k d \<noteq> None then PartialCountryTier
     else if matchedCities k d \<noteq> [] then CityTier
     else NoMatch)"
proof (cases s rule: handleSearch_cases)
  case EmptyQuery
  with assms show ?thesis by simp
next
  case DataNotLoaded
  with assms show ?thesis by simp
next
  case (BeachTier d')
  with assms show ?thesis by (simp add: handleSearch_BeachTier [OF BeachTier])
next
  case (TempleTier d')
  with assms show ?thesis by (simp add: handleSearch_TempleTier [OF TempleTier])
next
  case (CountryTier d')
  with assms show ?thesis by (simp add: handleSearch_CountryTier [OF CountryTier])
next
  case (ExactCountryTier d' c)
  with assms show ?thesis
    by (simp add: handleSearch_ExactCountryTier [OF ExactCountryTier(1,2) refl ExactCountryTier(3-)])
next
  case (PartialCountryTier d' c)
  with assms show ?thesis
    by (simp add: handleSearch_PartialCountryTier
        [OF PartialCountryTier(1,2) refl PartialCountryTier(3-)])
next
  case (CityTier_clock d' first others)
  with assms show ?thesis
    by (simp add: handleSearch_CityTier_clock [OF CityTier_clock(1,2) refl CityTier_clock(3-)])
next
  case (CityTier_no_clock d' first others)
  with assms show ?thesis
    by (simp add: handleSearch_CityTier_no_clock
        [OF CityTier_no_clock(1,2) refl CityTier_no_clock(3-)])
next
  case (NoMatch d')
  with assms show ?thesis
    by (simp add: handleSearch_NoMatch [OF NoMatch(1,2) refl NoMatch(3-)])
qed

lemma exactCountry_None_iff:
  "exactCountry k d = None \<longleftrightarrow>
   \<not> (\<exists>c \<in> set (or_empty_array (countries d)). toLowerCase (or_empty_string (c_name c)) = k)"
  by (auto simp: exactCountry_def find_None_iff)

lemma partialCountry_None_iff:
  "partialCountry k d = None \<longleftrightarrow>
   \<not> (\<exists>c \<in> set (or_empty_array (countries d)).
        sublist k (toLowerCase (or_empty_string (c_name c))))"
  by (auto simp: partialCountry_def find_None_iff includes_str_sublist)

lemma matchedCities_Nil_iff:
  "matchedCities k d = [] \<longleftrightarrow>
   \<not> (\<exists>city \<in> set (flattenAllCities (or_empty_array (countries d))).
        sublist k (toLowerCase (or_empty_string (p_name city))))"
  by (auto simp: matchedCities_def filter_empty_conv includes_str_sublist)

lemma exactCountry_unique:
  assumes "c \<in> set (or_empty_array (countries d))"
    and "toLowerCase (or_empty_string (c_name c)) = k"
    and "\<forall>c' \<in> set (or_empty_array (countries d)).
           toLowerCase (or_empty_string (c_name c')) = k \<longrightarrow> c' = c"
  shows "exactCountry k d = Some c"
proof (cases "exactCountry k d")
  case None
  with assms(1,2) show ?thesis by (auto simp: exactCountry_None_iff)
next
  case (Some c')
  then have "c' \<in> set (or_empty_array (countries d))"
    "toLowerCase (or_empty_string (c_name c')) = k"
    by (auto simp: exactCountry_def find_Some_iff in_set_conv_nth)
  with assms(3) Some show ?thesis by simp
qed

text \<open>C1: for a loaded dataset and a query whose normalised form \<open>k\<close> is not empty, the
  search returns from the branch of the first tier that matches, in the order: keyword
  \<open>beach\<close>, keyword \<open>temple\<close>, keyword \<open>country\<close>, a country whose lower-cased name equals \<open>k\<close>,
  a country whose lower-cased name contains \<open>k\<close>, a city whose lower-cased name contains \<open>k\<close>,
  no match. So exactly one tier fires and the keyword tiers come before any name matching.
  When \<open>k\<close> is none of the three keywords and is the lower-cased name of exactly one country,
  the search returns from the exact tier and shows that country's cities, whatever other
  country names contain \<open>k\<close>.\<close>

theorem tier_resolution:
  assumes "apiData s = Some d" and "k = normalizeKeyword (trim (searchInput s))" and "k \<noteq> []"
  shows "fst (handleSearch clk s) =
      (if k = ''beach'' then BeachTier
       else if k = ''temple'' then TempleTier
       else if k = ''country'' then CountryTier
       else if \<exists>c \<in> set (or_empty_array (countries d)).
                 toLowerCase (or_empty_string (c_name c)) = k
         then ExactCountryTier
       else if \<exists>c \<in> set (or_empty_array (countries d)).
                 sublist k (toLowerCase (or_empty_string (c_name c)))
         then PartialCountryTier
       else if \<exists>city \<in> set (flattenAllCities (or_empty_array (countries d))).
                 sublist k (toLowerCase (or_empty_string (p_name city)))
         then CityTier
       else NoMatch) \<and>
    (k \<noteq> ''beach'' \<and> k \<noteq> ''temple'' \<and> k \<noteq> ''country'' \<and>
     c \<in> set (or_empty_array (countries d)) \<and>
     toLowerCase (or_empty_string (c_name c)) = k \<and>
     (\<forall>c' \<in> set (or_empty_array (countries d)).
        toLowerCase (or_empty_string (c_name c')) = k \<longrightarrow> c' = c) \<longrightarrow>
       fst (handleSearch clk s) = ExactCountryTier \<and>
       results (snd (snd (handleSearch clk s))) =
         map (make_card (c_name c)) (take 6 (or_empty_array (c_cities c))) \<and>
       resultsMeta (snd (snd (handleSearch clk s))) =
         Meta (''Category: '' @ template (c_name c) @ '' (Cities)'')
           (length (or_empty_array (c_cities c))))"
proof -
  have raw: "trim (searchInput s) \<noteq> []"
    using assms(2,3) normalizeKeyword_Nil by auto
  have 1: "fst (handleSearch clk s) =
      (if k = ''beach'' then BeachTier
       else if k = ''temple'' then TempleTier
       else if k = ''country'' then CountryTier
       else if \<exists>c \<in> set (or_empty_array (countries d)).
                 toLowerCase (or_empty_string (c_name c)) = k
         then ExactCountryTier
       else if \<exists>c \<in> set (or_empty_array (countries d)).
                 sublist k (toLowerCase (or_empty_string (c_name c)))
         then PartialCountryTier
       else if \<exists>city \<in> set (flattenAllCities (or_empty_array (countries d))).
                 sublist k (toLowerCase (or_empty_string (p_name city)))
         then CityTier
       else NoMatch)"
    unfolding handleSearch_exit [OF raw assms(1,2)]
      exactCountry_None_iff partialCountry_None_iff matchedCities_Nil_iff
    by simp
  have 2: "k \<noteq> ''beach'' \<and> k \<noteq> ''temple'' \<and> k \<noteq> ''country'' \<and>
     c \<in> set (or_empty_array (countries d)) \<and>
     toLowerCase (or_empty_string (c_name c)) = k \<and>
     (\<forall>c' \<in> set (or_empty_array (countries d)).
        toLowerCase (or_empty_string (c_name c')) = k \<longrightarrow> c' = c) \<longrightarrow>
       fst (handleSearch clk s) = ExactCountryTier \<and>
       results (snd (snd (handleSearch clk s))) =
         map (make_card (c_name c)) (take 6 (or_empty_array (c_cities c))) \<and>
       resultsMeta (snd (snd (handleSearch clk s))) =
         Meta (''Category: '' @ template (c_name c) @ '' (Cities)'')
           (length (or_empty_array (c_cities c)))"
  proof
    assume a: "k \<noteq> ''beach'' \<and> k \<noteq> ''temple'' \<and> k \<noteq> ''country'' \<and>
     c \<in> set (or_empty_array (countries d)) \<and>
     toLowerCase (or_empty_string (c_name c)) = k \<and>
     (\<forall>c' \<in> set (or_empty_array (countries d)).
        toLowerCase (or_empty_string (c_name c')) = k \<longrightarrow> c' = c)"
    then have ex: "exactCountry k d = Some c" by (simp add: exactCountry_unique)
    from a have k: "k \<noteq> ''beach''" "k \<noteq> ''temple''" "k \<noteq> ''country''" by simp_all
    note eq = handleSearch_ExactCountryTier [OF raw assms(1) assms(2) [symmetric] k ex, of clk]
    show "fst (handleSearch clk s) = ExactCountryTier \<and>
       results (snd (snd (handleSearch clk s))) =
         map (make_card (c_name c)) (take 6 (or_empty_array (c_cities c))) \<and>
       resultsMeta (snd (snd (handleSearch clk s))) =
         Meta (''Category: '' @ template (c_name c) @ '' (Cities)'')
           (length (or_empty_array (c_cities c)))"
      using raw by (simp add: eq renderRecommendations_results setResultsHeader_shown truthy_def
          template_def)
  qed
  from 1 2 show ?thesis by blast
qed

theorem tier_resolution_witness:
  "apiData (sample_page\<lparr>apiData := Some sample_data, searchInput := '' Japan! ''\<rparr>) =
     Some sample_data \<and>
   normalizeKeyword (trim (searchInput
     (sample_page\<lparr>apiData := Some sample_data, searchInput := '' Japan! ''\<rparr>))) = ''japan'' \<and>
   ''japan'' \<noteq> [] \<and>
   or_empty_array (countries sample_data) = [new_japanland, japan] \<and>
   sublist ''japan'' (toLowerCase (or_empty_string (c_name new_japanland))) \<and>
   toLowerCase (or_empty_string (c_name new_japanland)) \<noteq> ''japan'' \<and>
   toLowerCase (or_empty_string (c_name japan)) = ''japan'' \<and>
   fst (handleSearch sample_clock
     (sample_page\<lparr>apiData := Some sample_data, searchInput := '' Japan! ''\<rparr>)) =
     ExactCountryTier \<and>
   results (snd (snd (handleSearch sample_clock
     (sample_page\<lparr>apiData := Some sample_data, searchInput := '' Japan! ''\<rparr>)))) =
     [make_card (Some ''Japan'') tokyo, make_card (Some ''Japan'') kyoto] \<and>
   resultsMeta (snd (snd (handleSearch sample_clock
     (sample_page\<lparr>apiData := Some sample_data, searchInput := '' Japan! ''\<rparr>)))) =
     Meta ''Category: Japan (Cities)'' 2"
proof -
  let ?s = "sample_page\<lparr>apiData := Some sample_data, searchInput := '' Japan! ''\<rparr>"
  have a: "apiData ?s = Some sample_data" by simp
  have k: "normalizeKeyword (trim '' Japan! '') = ''japan''" by code_simp
  then have k': "''japan'' = normalizeKeyword (trim (searchInput ?s))" by simp
  have ne: "''japan'' \<noteq> []" by simp
  have cs: "or_empty_array (countries sample_data) = [new_japanland, japan]" by code_simp
  have sub: "sublist ''japan'' (toLowerCase (or_empty_string (c_name new_japanland)))"
    unfolding includes_str_sublist [symmetric] by code_simp
  have n1: "toLowerCase (or_empty_string (c_name new_japanland)) \<noteq> ''japan''" by code_simp
  have n2: "toLowerCase (or_empty_string (c_name japan)) = ''japan''" by code_simp
  have mem: "japan \<in> set (or_empty_array (countries sample_data))" using cs by simp
  have uniq: "\<forall>c' \<in> set (or_empty_array (countries sample_data)).
      toLowerCase (or_empty_string (c_name c')) = ''japan'' \<longrightarrow> c' = japan"
    using cs n1 by simp
  have j: "c_name japan = Some ''Japan''" "or_empty_array (c_cities japan) = [tokyo, kyoto]"
    by (simp_all add: japan_def or_empty_array_def)
  show ?thesis
    using tier_resolution [OF a k' ne, where c = japan and clk = sample_clock] a k cs sub n1 n2 mem uniq j
    by (simp add: template_def)
qed

lemma normalizeKeyword_beach:
  assumes "trim (toLowerCase raw) = ''beach'' \<or> trim (toLowerCase raw) = ''beaches''"
  shows "normalizeKeyword (trim raw) = ''beach''"
proof -
  have l: "toLowerCase (trim raw) = trim (toLowerCase raw)" by (simp only: trim_toLowerCase)
  have b: "trim (filter kept ''beach'') = ''beach''" by code_simp
  have bs: "trim (filter kept ''beaches'') = ''beaches''" by code_simp
  from assms show ?thesis
  proof
    assume "trim (toLowerCase raw) = ''beach''"
    with l have "toLowerCase (trim raw) = ''beach''" by simp
    then show ?thesis using b by (simp add: normalizeKeyword_def)
  next
    assume "trim (toLowerCase raw) = ''beaches''"
    with l have "toLowerCase (trim raw) = ''beaches''" by simp
    then show ?thesis using bs by (simp add: normalizeKeyword_def)
  qed
qed

text \<open>C4: every raw query that is \<open>beach\<close> or \<open>beaches\<close> in any letter case with surrounding
  white space normalises to \<open>beach\<close>; normalisation lower-cases, keeps only word characters,
  white space and hyphens, trims, and maps the exact strings \<open>beaches\<close>, \<open>temples\<close> and
  \<open>countries\<close> to their singular. For a loaded dataset, every query that normalises to
  \<open>beach\<close> returns from the beaches tier with the whole beaches list (an absent list counts as
  empty): the header reports its length under the category \<open>Beaches\<close> and the cards are those
  of its first six entries with the badge \<open>Beaches\<close>.\<close>

theorem beach_keyword:
  "(trim (toLowerCase raw) = ''beach'' \<or> trim (toLowerCase raw) = ''beaches'' \<longrightarrow>
      normalizeKeyword (trim raw) = ''beach'') \<and>
   normalizeKeyword text =
     (let t = trim (filter (\<lambda>c. is_word c \<or> is_space c \<or> c = CHR ''-'') (toLowerCase text))
      in if t = ''beaches'' then ''beach''
         else if t = ''temples'' then ''temple''
         else if t = ''countries'' then ''country''
         else t) \<and>
   (apiData s = Some d \<and> normalizeKeyword (trim (searchInput s)) = ''beach'' \<longrightarrow>
      fst (handleSearch clk s) = BeachTier \<and>
      fst (snd (handleSearch clk s)) = Returned \<and>
      resultsMeta (snd (snd (handleSearch clk s))) =
        Meta ''Category: Beaches'' (length (or_empty_array (beaches d))) \<and>
      results (snd (snd (handleSearch clk s))) =
        map (make_card (Some ''Beaches'')) (take 6 (or_empty_array (beaches d))))"
proof -
  have 1: "trim (toLowerCase raw) = ''beach'' \<or> trim (toLowerCase raw) = ''beaches'' \<longrightarrow>
      normalizeKeyword (trim raw) = ''beach''"
    using normalizeKeyword_beach by blast
  have k: "kept = (\<lambda>c. is_word c \<or> is_space c \<or> c = CHR ''-'')"
    by (rule ext) (simp add: kept_def)
  have 2: "normalizeKeyword text =
     (let t = trim (filter (\<lambda>c. is_word c \<or> is_space c \<or> c = CHR ''-'') (toLowerCase text))
      in if t = ''beaches'' then ''beach''
         else if t = ''temples'' then ''temple''
         else if t = ''countries'' then ''country''
         else t)"
    unfolding k [symmetric] by (simp add: normalizeKeyword_def Let_def)
  have 3: "apiData s = Some d \<and> normalizeKeyword (trim (searchInput s)) = ''beach'' \<longrightarrow>
      fst (handleSearch clk s) = BeachTier \<and>
      fst (snd (handleSearch clk s)) = Returned \<and>
      resultsMeta (snd (snd (handleSearch clk s))) =
        Meta ''Category: Beaches'' (length (or_empty_array (beaches d))) \<and>
      results (snd (snd (handleSearch clk s))) =
        map (make_card (Some ''Beaches'')) (take 6 (or_empty_array (beaches d)))"
  proof
    assume a: "apiData s = Some d \<and> normalizeKeyword (trim (searchInput s)) = ''beach''"
    then have raw: "trim (searchInput s) \<noteq> []" using normalizeKeyword_Nil by auto
    from a have d: "apiData s = Some d" and b: "normalizeKeyword (trim (searchInput s)) = ''beach''"
      by simp_all
    show "fst (handleSearch clk s) = BeachTier \<and>
      fst (snd (handleSearch clk s)) = Returned \<and>
      resultsMeta (snd (snd (handleSearch clk s))) =
        Meta ''Category: Beaches'' (length (or_empty_array (beaches d))) \<and>
      results (snd (snd (handleSearch clk s))) =
        map (make_card (Some ''Beaches'')) (take 6 (or_empty_array (beaches d)))"
      using raw
      by (simp add: handleSearch_BeachTier [OF raw d b] renderRecommendations_results
          setResultsHeader_shown truthy_def template_def)
  qed
  from 1 2 3 show ?thesis by blast
qed

theorem beach_keyword_witness:
  "trim (toLowerCase ([CHR 0x09] @ '' BeAcHeS  '')) = ''beaches'' \<and>
   normalizeKeyword (trim ([CHR 0x09] @ '' BeAcHeS  '')) = ''beach'' \<and>
   trim (toLowerCase ''Beach '') = ''beach'' \<and>
   normalizeKeyword (trim ''Beach '') = ''beach'' \<and>
   apiData (sample_page\<lparr>apiData := Some sample_data, searchInput := ''Beach ''\<rparr>) =
     Some sample_data \<and>
   fst (handleSearch sample_clock
     (sample_page\<lparr>apiData := Some sample_data, searchInput := ''Beach ''\<rparr>)) = BeachTier \<and>
   resultsMeta (snd (snd (handleSearch sample_clock
     (sample_page\<lparr>apiData := Some sample_data, searchInput := ''Beach ''\<rparr>)))) =
     Meta ''Category: Beaches'' 2 \<and>
   results (snd (snd (handleSearch sample_clock
     (sample_page\<lparr>apiData := Some sample_data, searchInput := ''Beach ''\<rparr>)))) =
     [make_card (Some ''Beaches'') bondi, make_card (Some ''Beaches'') copacabana]"
proof -
  let ?s = "sample_page\<lparr>apiData := Some sample_data, searchInput := ''Beach ''\<rparr>"
  have a: "trim (toLowerCase ([CHR 0x09] @ '' BeAcHeS  '')) = ''beaches''" by code_simp
  have b: "trim (toLowerCase ''Beach '') = ''beach''" by code_simp
  have d: "apiData ?s = Some sample_data" by simp
  have l: "or_empty_array (beaches sample_data) = [bondi, copacabana]" by code_simp
  have n1: "normalizeKeyword (trim ([CHR 0x09] @ '' BeAcHeS  '')) = ''beach''"
    using beach_keyword [of "[CHR 0x09] @ '' BeAcHeS  ''", THEN conjunct1] a by simp
  have n2: "normalizeKeyword (trim ''Beach '') = ''beach''"
    using beach_keyword [of "''Beach ''", THEN conjunct1] b by simp
  then have n: "normalizeKeyword (trim (searchInput ?s)) = ''beach''" by simp
  have r: "fst (handleSearch sample_clock ?s) = BeachTier \<and>
      fst (snd (handleSearch sample_clock ?s)) = Returned \<and>
      resultsMeta (snd (snd (handleSearch sample_clock ?s))) =
        Meta ''Category: Beaches'' (length (or_empty_array (beaches sample_data))) \<and>
      results (snd (snd (handleSearch sample_clock ?s))) =
        map (make_card (Some ''Beaches'')) (take 6 (or_empty_array (beaches sample_data)))"
    using beach_keyword [where s = ?s and d = sample_data and clk = sample_clock,
        THEN conjunct2, THEN conjunct2] d n by blast
  show ?thesis
    using a b d n1 n2 r by (simp add: l)
qed

subsection \<open>A blank inferred country\<close>

lemma inferCountryFromCityName_blank:
  "blank_tail nm \<Longrightarrow> inferCountryFromCityName (Some nm) = Some []"
proof -
  assume b: "blank_tail nm"
  then have c: "CHR '','' \<in> set nm" and w: "\<forall>c \<in> set (last (split CHR '','' nm)). is_space c"
    by (simp_all add: blank_tail_def list_all_iff)
  from w have "trim (last (split CHR '','' nm)) = []" by (rule trim_spaces)
  with c show ?thesis by (simp add: inferCountryFromCityName_Some split_short_iff)
qed

text \<open>C10: for a city name with a comma whose last segment is empty or white space only,
  the inference returns the empty string. When a search in a reachable state ends in the city
  tier and the first matched city has such a name, the empty string counts as no country:
  the search returns normally, no interval is left active, no handle is stored, and the time
  box is cleared where the page has one, so it does not show the message that no time zone
  is configured for an empty country name.\<close>

theorem blank_country_no_clock:
  "(blank_tail nm \<longrightarrow> inferCountryFromCityName (Some nm) = Some []) \<and>
   (reachable s \<and> apiData s = Some d \<and> fst (handleSearch clk s) = CityTier \<and>
    matchedCities (normalizeKeyword (trim (searchInput s))) d = first # others \<and>
    p_name first = Some nm \<and> blank_tail nm \<longrightarrow>
      fst (snd (handleSearch clk s)) = Returned \<and>
      timers (snd (snd (handleSearch clk s))) = [] \<and>
      clockIntervalId (snd (snd (handleSearch clk s))) = None \<and>
      timeBox (snd (snd (handleSearch clk s))) = map_option (\<lambda>_. (False, [])) (timeBox s) \<and>
      timeBox (snd (snd (handleSearch clk s))) \<noteq>
        Some (True, ''Current time: (time zone not configured for )''))"
proof -
  have 1: "blank_tail nm \<longrightarrow> inferCountryFromCityName (Some nm) = Some []"
    by (simp add: inferCountryFromCityName_blank)
  have 2: "reachable s \<and> apiData s = Some d \<and> fst (handleSearch clk s) = CityTier \<and>
    matchedCities (normalizeKeyword (trim (searchInput s))) d = first # others \<and>
    p_name first = Some nm \<and> blank_tail nm \<longrightarrow>
      fst (snd (handleSearch clk s)) = Returned \<and>
      timers (snd (snd (handleSearch clk s))) = [] \<and>
      clockIntervalId (snd (snd (handleSearch clk s))) = None \<and>
      timeBox (snd (snd (handleSearch clk s))) = map_option (\<lambda>_. (False, [])) (timeBox s) \<and>
      timeBox (snd (snd (handleSearch clk s))) \<noteq>
        Some (True, ''Current time: (time zone not configured for )'')"
  proof
    let ?k = "normalizeKeyword (trim (searchInput s))"
    assume a: "reachable s \<and> apiData s = Some d \<and> fst (handleSearch clk s) = CityTier \<and>
      matchedCities ?k d = first # others \<and> p_name first = Some nm \<and> blank_tail nm"
    then have inv: "clock_inv s" by (simp add: reachable_inv)
    from a have d: "apiData s = Some d" and city: "fst (handleSearch clk s) = CityTier"
      and m: "matchedCities ?k d = first # others" and nm: "p_name first = Some nm"
      and blank: "blank_tail nm" by simp_all
    have raw: "trim (searchInput s) \<noteq> []"
    proof
      assume "trim (searchInput s) = []"
      then have "fst (handleSearch clk s) = EmptyQuery" by (simp add: handleSearch_EmptyQuery)
      with city show False by simp
    qed
    have e: "(if ?k = ''beach'' then BeachTier
       else if ?k = ''temple'' then TempleTier
       else if ?k = ''country'' then CountryTier
       else if exactCountry ?k d \<noteq> None then ExactCountryTier
       else if partialCountry ?k d \<noteq> None then PartialCountryTier
       else if matchedCities ?k d \<noteq> [] then CityTier
       else NoMatch) = CityTier"
      using handleSearch_exit [OF raw d refl, of clk] city by simp
    then have k: "?k \<noteq> ''beach''" "?k \<noteq> ''temple''" "?k \<noteq> ''country''"
      and ex: "exactCountry ?k d = None" and pa: "partialCountry ?k d = None"
      by (auto split: if_splits)
    have inf: "\<not> truthy (inferCountryFromCityName (p_name first))"
      using nm blank by (simp add: inferCountryFromCityName_blank truthy_def)
    note eq = handleSearch_CityTier_no_clock [OF raw d refl k ex pa m inf, of clk]
    have u: "clock_inv (renderRecommendations (first # others) (Some ''City'')
           (setResultsHeader (Some (trim (searchInput s))) (length (first # others))
              (Some ''City Results'') s))"
      by (rule clock_inv_cong [OF inv]) simp_all
    show "fst (snd (handleSearch clk s)) = Returned \<and>
      timers (snd (snd (handleSearch clk s))) = [] \<and>
      clockIntervalId (snd (snd (handleSearch clk s))) = None \<and>
      timeBox (snd (snd (handleSearch clk s))) = map_option (\<lambda>_. (False, [])) (timeBox s) \<and>
      timeBox (snd (snd (handleSearch clk s))) \<noteq>
        Some (True, ''Current time: (time zone not configured for )'')"
      using stopClock_stops [OF u]
      by (simp add: eq timeBox_setTimeBox truthy_def split: option.splits)
  qed
  from 1 2 show ?thesis by blast
qed

theorem blank_country_no_clock_witness:
  "blank_tail ''Kyoto, '' \<and>
   inferCountryFromCityName (Some ''Kyoto, '') = Some [] \<and>
   reachable (run kyoto_session sample_page) \<and>
   apiData (run kyoto_session sample_page) = Some sample_data_bare \<and>
   timers (run kyoto_session sample_page) =
     [(1, SingleTick (Some ''Japan'') (Some (TzName ''Asia/Tokyo'')))] \<and>
   timeBox (run kyoto_session sample_page) = Some (True, ''Current time in Japan: 9:41:07 PM'') \<and>
   fst (handleSearch sample_clock (run kyoto_session sample_page)) = CityTier \<and>
   matchedCities (normalizeKeyword (trim (searchInput (run kyoto_session sample_page))))
     sample_data_bare = [kyoto_bare] \<and>
   p_name kyoto_bare = Some ''Kyoto, '' \<and>
   fst (snd (handleSearch sample_clock (run kyoto_session sample_page))) = Returned \<and>
   timers (snd (snd (handleSearch sample_clock (run kyoto_session sample_page)))) = [] \<and>
   timeBox (snd (snd (handleSearch sample_clock (run kyoto_session sample_page)))) =
     Some (False, [])"
proof -
  let ?s = "run kyoto_session sample_page"
  have b: "blank_tail ''Kyoto, ''" by code_simp
  have r: "reachable ?s"
    by (rule run_reachable, rule reachable.start) (simp add: initial_def sample_page_def)
  have d: "apiData ?s = Some sample_data_bare" by code_simp
  have t: "timers ?s = [(1, SingleTick (Some ''Japan'') (Some (TzName ''Asia/Tokyo'')))]"
    by code_simp
  have tb: "timeBox ?s = Some (True, ''Current time in Japan: 9:41:07 PM'')" by code_simp
  have c: "fst (handleSearch sample_clock ?s) = CityTier" by code_simp
  have m: "matchedCities (normalizeKeyword (trim (searchInput ?s))) sample_data_bare =
      [kyoto_bare]" by code_simp
  have n: "p_name kyoto_bare = Some ''Kyoto, ''" by (simp add: kyoto_bare_def)
  have i: "inferCountryFromCityName (Some ''Kyoto, '') = Some []"
    using blank_country_no_clock [where nm = "''Kyoto, ''", THEN conjunct1] b by blast
  have "fst (snd (handleSearch sample_clock ?s)) = Returned \<and>
      timers (snd (snd (handleSearch sample_clock ?s))) = [] \<and>
      clockIntervalId (snd (snd (handleSearch sample_clock ?s))) = None \<and>
      timeBox (snd (snd (handleSearch sample_clock ?s))) =
        map_option (\<lambda>_. (False, [])) (timeBox ?s) \<and>
      timeBox (snd (snd (handleSearch sample_clock ?s))) \<noteq>
        Some (True, ''Current time: (time zone not configured for )'')"
    using blank_country_no_clock [where nm = "''Kyoto, ''" and s = ?s and d = sample_data_bare
        and clk = sample_clock and first = kyoto_bare and others = "[]", THEN conjunct2]
      b r d c m n by blast
  then show ?thesis using b r d t tb c m n i by simp
qed

subsection \<open>Missing top-level fields\<close>

lemma apiData_update_commute:
  "stopClock (s\<lparr>apiData := a\<rparr>) = (stopClock s)\<lparr>apiData := a\<rparr>"
  "setTimeBox m (s\<lparr>apiData := a\<rparr>) = (setTimeBox m s)\<lparr>apiData := a\<rparr>"
  "setResultsHeader q n l (s\<lparr>apiData := a\<rparr>) = (setResultsHeader q n l s)\<lparr>apiData := a\<rparr>"
  "renderEmpty msg (s\<lparr>apiData := a\<rparr>) = (renderEmpty msg s)\<lparr>apiData := a\<rparr>"
  "renderRecommendations xs b (s\<lparr>apiData := a\<rparr>) =
     (renderRecommendations xs b s)\<lparr>apiData := a\<rparr>"
  by (simp_all add: stopClock_def clearInterval_def setTimeBox_def setResultsHeader_def
      renderEmpty_def renderRecommendations_def Let_def split: option.splits)

lemma updateSingleClock_commute:
  "updateSingleClock clk n tz (s\<lparr>apiData := a\<rparr>) =
     (fst (updateSingleClock clk n tz s), (snd (updateSingleClock clk n tz s))\<lparr>apiData := a\<rparr>)"
  by (simp add: updateSingleClock_def apiData_update_commute split: sum.splits)

lemma updateMultiClock_commute:
  "updateMultiClock clk l (s\<lparr>apiData := a\<rparr>) =
     (fst (updateMultiClock clk l s), (snd (updateMultiClock clk l s))\<lparr>apiData := a\<rparr>)"
  by (simp add: updateMultiClock_def apiData_update_commute split: sum.splits)

lemma startSingleClock_commute:
  "startSingleClock clk n tz (s\<lparr>apiData := a\<rparr>) =
     (fst (startSingleClock clk n tz s), (snd (startSingleClock clk n tz s))\<lparr>apiData := a\<rparr>)"
proof -
  obtain r u where u: "updateSingleClock clk n tz (stopClock s) = (r, u)"
    by (cases "updateSingleClock clk n tz (stopClock s)")
  then have u': "updateSingleClock clk n tz ((stopClock s)\<lparr>apiData := a\<rparr>) =
      (r, u\<lparr>apiData := a\<rparr>)"
    by (simp add: updateSingleClock_commute)
  show ?thesis
    using u u'
    by (cases r)
      (simp_all add: startSingleClock_def apiData_update_commute setInterval_def Let_def)
qed

lemma startMultiClock_commute:
  "startMultiClock clk l (s\<lparr>apiData := a\<rparr>) =
     (fst (startMultiClock clk l s), (snd (startMultiClock clk l s))\<lparr>apiData := a\<rparr>)"
proof -
  obtain r u where u: "updateMultiClock clk l (stopClock s) = (r, u)"
    by (cases "updateMultiClock clk l (stopClock s)")
  then have u': "updateMultiClock clk l ((stopClock s)\<lparr>apiData := a\<rparr>) =
      (r, u\<lparr>apiData := a\<rparr>)"
    by (simp add: updateMultiClock_commute)
  show ?thesis
    using u u'
    by (cases r)
      (simp_all add: startMultiClock_def apiData_update_commute setInterval_def Let_def)
qed

lemma with_defaults_fields [simp]:
  "or_empty_array (beaches (with_defaults d)) = or_empty_array (beaches d)"
  "or_empty_array (temples (with_defaults d)) = or_empty_array (temples d)"
  "or_empty_array (countries (with_defaults d)) = or_empty_array (countries d)"
  "exactCountry k (with_defaults d) = exactCountry k d"
  "partialCountry k (with_defaults d) = partialCountry k d"
  "matchedCities k (with_defaults d) = matchedCities k d"
  by (simp_all add: with_defaults_def or_empty_array_def exactCountry_def partialCountry_def
      matchedCities_def)

lemma handleSearch_with_defaults:
  assumes d: "apiData s = Some d"
  shows "handleSearch clk (s\<lparr>apiData := Some (with_defaults d)\<rparr>) =
     (fst (handleSearch clk s), fst (snd (handleSearch clk s)),
      (snd (snd (handleSearch clk s)))\<lparr>apiData := Some (with_defaults d)\<rparr>)"
proof -
  let ?t = "s\<lparr>apiData := Some (with_defaults d)\<rparr>"
  have i: "searchInput ?t = searchInput s" by simp
  have a: "apiData ?t = Some (with_defaults d)" by simp
  show ?thesis
  proof (cases s rule: handleSearch_cases)
    case EmptyQuery
    then have "trim (searchInput ?t) = []" by simp
    then show ?thesis
      by (simp add: handleSearch_EmptyQuery [of ?t] handleSearch_EmptyQuery [OF EmptyQuery]
          apiData_update_commute)
  next
    case DataNotLoaded
    with d show ?thesis by simp
  next
    case (BeachTier d')
    with d have [simp]: "d' = d" by simp
    have t: "trim (searchInput ?t) \<noteq> []"
      "normalizeKeyword (trim (searchInput ?t)) = ''beach''"
      using BeachTier by simp_all
    show ?thesis
      by (simp add: handleSearch_BeachTier [OF t(1) a t(2)] handleSearch_BeachTier [OF BeachTier]
          apiData_update_commute)
  next
    case (TempleTier d')
    with d have [simp]: "d' = d" by simp
    have t: "trim (searchInput ?t) \<noteq> []"
      "normalizeKeyword (trim (searchInput ?t)) = ''temple''"
      using TempleTier by simp_all
    show ?thesis
      by (simp add: handleSearch_TempleTier [OF t(1) a t(2)]
          handleSearch_TempleTier [OF TempleTier] apiData_update_commute)
  next
    case (CountryTier d')
    with d have [simp]: "d' = d" by simp
    have t: "trim (searchInput ?t) \<noteq> []"
      "normalizeKeyword (trim (searchInput ?t)) = ''country''"
      using CountryTier by simp_all
    show ?thesis
      by (simp add: handleSearch_CountryTier [OF t(1) a t(2)]
          handleSearch_CountryTier [OF CountryTier] apiData_update_commute
          startMultiClock_commute)
  next
    case (ExactCountryTier d' c)
    with d have [simp]: "d' = d" by simp
    have t: "trim (searchInput ?t) \<noteq> []"
      "normalizeKeyword (trim (searchInput ?t)) = normalizeKeyword (trim (searchInput s))"
      "exactCountry (normalizeKeyword (trim (searchInput s))) (with_defaults d) = Some c"
      using ExactCountryTier by simp_all
    show ?thesis
      by (simp add: handleSearch_ExactCountryTier [OF t(1) a t(2) ExactCountryTier(3-5) t(3)]
          handleSearch_ExactCountryTier [OF ExactCountryTier(1,2) refl ExactCountryTier(3-)]
          apiData_update_commute startSingleClock_commute)
  next
    case (PartialCountryTier d' c)
    with d have [simp]: "d' = d" by simp
    have t: "trim (searchInput ?t) \<noteq> []"
      "normalizeKeyword (trim (searchInput ?t)) = normalizeKeyword (trim (searchInput s))"
      "exactCountry (normalizeKeyword (trim (searchInput s))) (with_defaults d) = None"
      "partialCountry (normalizeKeyword (trim (searchInput s))) (with_defaults d) = Some c"
      using PartialCountryTier by simp_all
    show ?thesis
      by (simp add: handleSearch_PartialCountryTier
            [OF t(1) a t(2) PartialCountryTier(3-5) t(3,4)]
          handleSearch_PartialCountryTier
            [OF PartialCountryTier(1,2) refl PartialCountryTier(3-)]
          apiData_update_commute startSingleClock_commute)
  next
    case (CityTier_clock d' first others)
    with d have [simp]: "d' = d" by simp
    have t: "trim (searchInput ?t) \<noteq> []"
      "normalizeKeyword (trim (searchInput ?t)) = normalizeKeyword (trim (searchInput s))"
      "exactCountry (normalizeKeyword (trim (searchInput s))) (with_defaults d) = None"
      "partialCountry (normalizeKeyword (trim (searchInput s))) (with_defaults d) = None"
      "matchedCities (normalizeKeyword (trim (searchInput s))) (with_defaults d) = first # others"
      using CityTier_clock by simp_all
    show ?thesis
      by (simp add: handleSearch_CityTier_clock
            [OF t(1) a t(2) CityTier_clock(3-5) t(3,4,5) CityTier_clock(9)]
          handleSearch_CityTier_clock [OF CityTier_clock(1,2) refl CityTier_clock(3-)]
          apiData_update_commute startSingleClock_commute)
  next
    case (CityTier_no_clock d' first others)
    with d have [simp]: "d' = d" by simp
    have t: "trim (searchInput ?t) \<noteq> []"
      "normalizeKeyword (trim (searchInput ?t)) = normalizeKeyword (trim (searchInput s))"
      "exactCountry (normalizeKeyword (trim (searchInput s))) (with_defaults d) = None"
      "partialCountry (normalizeKeyword (trim (searchInput s))) (with_defaults d) = None"
      "matchedCities (normalizeKeyword (trim (searchInput s))) (with_defaults d) = first # others"
      using CityTier_no_clock by simp_all
    show ?thesis
      by (simp add: handleSearch_CityTier_no_clock
            [OF t(1) a t(2) CityTier_no_clock(3-5) t(3,4,5) CityTier_no_clock(9)]
          handleSearch_CityTier_no_clock [OF CityTier_no_clock(1,2) refl CityTier_no_clock(3-)]
          apiData_update_commute)
  next
    case (NoMatch d')
    with d have [simp]: "d' = d" by simp
    have t: "trim (searchInput ?t) \<noteq> []"
      "normalizeKeyword (trim (searchInput ?t)) = normalizeKeyword (trim (searchInput s))"
      "exactCountry (normalizeKeyword (trim (searchInput s))) (with_defaults d) = None"
      "partialCountry (normalizeKeyword (trim (searchInput s))) (with_defaults d) = None"
      "matchedCities (normalizeKeyword (trim (searchInput s))) (with_defaults d) = []"
      using NoMatch by simp_all
    show ?thesis
      by (simp add: handleSearch_NoMatch [OF t(1) a t(2) NoMatch(3-5) t(3,4,5)]
          handleSearch_NoMatch [OF NoMatch(1,2) refl NoMatch(3-)]
          apiData_update_commute)
  qed
qed

lemma no_countries_lookups:
  assumes "countries d = None"
  shows "exactCountry k d = None" "partialCountry k d = None" "matchedCities k d = []"
    "flattenAllCities (or_empty_array (countries d)) = []"
    "getTimeZonesForCountries (map c_name (or_empty_array (countries d))) = []"
  using assms
  by (simp_all add: exactCountry_def partialCountry_def matchedCities_def flattenAllCities_def
      or_empty_array_def getTimeZonesForCountries_def)

lemma no_countries_returns:
  assumes d: "apiData s = Some d" and n: "countries d = None"
  shows "fst (snd (handleSearch clk s)) = Returned \<and>
    fst (handleSearch clk s) \<in> {EmptyQuery, BeachTier, TempleTier, CountryTier, NoMatch}"
proof (cases s rule: handleSearch_cases)
  case EmptyQuery
  then show ?thesis by (simp add: handleSearch_EmptyQuery)
next
  case DataNotLoaded
  with d show ?thesis by simp
next
  case (BeachTier d')
  show ?thesis by (simp add: handleSearch_BeachTier [OF BeachTier])
next
  case (TempleTier d')
  show ?thesis by (simp add: handleSearch_TempleTier [OF TempleTier])
next
  case (CountryTier d')
  with d have "d' = d" by simp
  then show ?thesis
    by (simp add: handleSearch_CountryTier [OF CountryTier] no_countries_lookups [OF n]
        startMultiClock_timers)
next
  case (ExactCountryTier d' c)
  with d show ?thesis by (simp add: no_countries_lookups [OF n])
next
  case (PartialCountryTier d' c)
  with d show ?thesis by (simp add: no_countries_lookups [OF n])
next
  case (CityTier_clock d' first others)
  with d show ?thesis by (simp add: no_countries_lookups [OF n])
next
  case (CityTier_no_clock d' first others)
  with d show ?thesis by (simp add: no_countries_lookups [OF n])
next
  case (NoMatch d')
  show ?thesis by (simp add: handleSearch_NoMatch [OF NoMatch(1,2) refl NoMatch(3-)])
qed

text \<open>C8: for a loaded dataset, a search behaves as it does on the dataset in which every
  missing top-level field is the empty array: same branch, same completion, same page. No
  step fails on a missing field: a search for \<open>beach\<close> without a beaches field, for \<open>temple\<close>
  without a temples field, or for \<open>country\<close> without a countries field returns from its tier
  with no card, a count of zero and the empty-state message, and without a countries field
  every search returns normally, from a branch that needs no country.\<close>

theorem missing_fields_default:
  assumes "apiData s = Some d"
  shows "handleSearch clk (s\<lparr>apiData := Some (with_defaults d)\<rparr>) =
      (fst (handleSearch clk s), fst (snd (handleSearch clk s)),
       (snd (snd (handleSearch clk s)))\<lparr>apiData := Some (with_defaults d)\<rparr>) \<and>
    (beaches d = None \<and> normalizeKeyword (trim (searchInput s)) = ''beach'' \<longrightarrow>
       fst (handleSearch clk s) = BeachTier \<and>
       fst (snd (handleSearch clk s)) = Returned \<and>
       results (snd (snd (handleSearch clk s))) = [] \<and>
       resultsMeta (snd (snd (handleSearch clk s))) = Meta ''Category: Beaches'' 0 \<and>
       emptyState_text (snd (snd (handleSearch clk s))) =
         ''No recommendations found for that search.'') \<and>
    (temples d = None \<and> normalizeKeyword (trim (searchInput s)) = ''temple'' \<longrightarrow>
       fst (handleSearch clk s) = TempleTier \<and>
       fst (snd (handleSearch clk s)) = Returned \<and>
       results (snd (snd (handleSearch clk s))) = [] \<and>
       resultsMeta (snd (snd (handleSearch clk s))) = Meta ''Category: Temples'' 0 \<and>
       emptyState_text (snd (snd (handleSearch clk s))) =
         ''No recommendations found for that search.'') \<and>
    (countries d = None \<longrightarrow>
       fst (snd (handleSearch clk s)) = Returned \<and>
       fst (handleSearch clk s) \<in> {EmptyQuery, BeachTier, TempleTier, CountryTier, NoMatch}) \<and>
    (countries d = None \<and> normalizeKeyword (trim (searchInput s)) = ''country'' \<longrightarrow>
       fst (handleSearch clk s) = CountryTier \<and>
       results (snd (snd (handleSearch clk s))) = [] \<and>
       resultsMeta (snd (snd (handleSearch clk s))) = Meta ''Category: Countries (Cities)'' 0 \<and>
       emptyState_text (snd (snd (handleSearch clk s))) =
         ''No recommendations found for that search.'')"
proof -
  note d = assms
  have raw: "trim (searchInput s) \<noteq> []" if "normalizeKeyword (trim (searchInput s)) \<noteq> []"
    using that normalizeKeyword_Nil by auto
  have 1: "handleSearch clk (s\<lparr>apiData := Some (with_defaults d)\<rparr>) =
      (fst (handleSearch clk s), fst (snd (handleSearch clk s)),
       (snd (snd (handleSearch clk s)))\<lparr>apiData := Some (with_defaults d)\<rparr>)"
    using d by (rule handleSearch_with_defaults)
  have 2: "beaches d = None \<and> normalizeKeyword (trim (searchInput s)) = ''beach'' \<longrightarrow>
       fst (handleSearch clk s) = BeachTier \<and>
       fst (snd (handleSearch clk s)) = Returned \<and>
       results (snd (snd (handleSearch clk s))) = [] \<and>
       resultsMeta (snd (snd (handleSearch clk s))) = Meta ''Category: Beaches'' 0 \<and>
       emptyState_text (snd (snd (handleSearch clk s))) =
         ''No recommendations found for that search.''"
  proof
    assume a: "beaches d = None \<and> normalizeKeyword (trim (searchInput s)) = ''beach''"
    then have k: "normalizeKeyword (trim (searchInput s)) = ''beach''" by simp
    then have r: "trim (searchInput s) \<noteq> []" using raw by simp
    from a have e: "or_empty_array (beaches d) = []" by (simp add: or_empty_array_def)
    show "fst (handleSearch clk s) = BeachTier \<and>
       fst (snd (handleSearch clk s)) = Returned \<and>
       results (snd (snd (handleSearch clk s))) = [] \<and>
       resultsMeta (snd (snd (handleSearch clk s))) = Meta ''Category: Beaches'' 0 \<and>
       emptyState_text (snd (snd (handleSearch clk s))) =
         ''No recommendations found for that search.''"
      using r
      by (simp add: handleSearch_BeachTier [OF r d k] e renderRecommendations_results
          renderRecommendations_empty_state setResultsHeader_shown truthy_def template_def)
  qed
  have 3: "temples d = None \<and> normalizeKeyword (trim (searchInput s)) = ''temple'' \<longrightarrow>
       fst (handleSearch clk s) = TempleTier \<and>
       fst (snd (handleSearch clk s)) = Returned \<and>
       results (snd (snd (handleSearch clk s))) = [] \<and>
       resultsMeta (snd (snd (handleSearch clk s))) = Meta ''Category: Temples'' 0 \<and>
       emptyState_text (snd (snd (handleSearch clk s))) =
         ''No recommendations found for that search.''"
  proof
    assume a: "temples d = None \<and> normalizeKeyword (trim (searchInput s)) = ''temple''"
    then have k: "normalizeKeyword (trim (searchInput s)) = ''temple''" by simp
    then have r: "trim (searchInput s) \<noteq> []" using raw by simp
    from a have e: "or_empty_array (temples d) = []" by (simp add: or_empty_array_def)
    show "fst (handleSearch clk s) = TempleTier \<and>
       fst (snd (handleSearch clk s)) = Returned \<and>
       results (snd (snd (handleSearch clk s))) = [] \<and>
       resultsMeta (snd (snd (handleSearch clk s))) = Meta ''Category: Temples'' 0 \<and>
       emptyState_text (snd (snd (handleSearch clk s))) =
         ''No recommendations found for that search.''"
      using r
      by (simp add: handleSearch_TempleTier [OF r d k] e renderRecommendations_results
          renderRecommendations_empty_state setResultsHeader_shown truthy_def template_def)
  qed
  have 4: "countries d = None \<longrightarrow>
       fst (snd (handleSearch clk s)) = Returned \<and>
       fst (handleSearch clk s) \<in> {EmptyQuery, BeachTier, TempleTier, CountryTier, NoMatch}"
    using no_countries_returns [OF d] by blast
  have 5: "countries d = None \<and> normalizeKeyword (trim (searchInput s)) = ''country'' \<longrightarrow>
       fst (handleSearch clk s) = CountryTier \<and>
       results (snd (snd (handleSearch clk s))) = [] \<and>
       resultsMeta (snd (snd (handleSearch clk s))) = Meta ''Category: Countries (Cities)'' 0 \<and>
       emptyState_text (snd (snd (handleSearch clk s))) =
         ''No recommendations found for that search.''"
  proof
    assume a: "countries d = None \<and> normalizeKeyword (trim (searchInput s)) = ''country''"
    then have k: "normalizeKeyword (trim (searchInput s)) = ''country''" by simp
    then have r: "trim (searchInput s) \<noteq> []" using raw by simp
    from a have n: "countries d = None" by simp
    show "fst (handleSearch clk s) = CountryTier \<and>
       results (snd (snd (handleSearch clk s))) = [] \<and>
       resultsMeta (snd (snd (handleSearch clk s))) = Meta ''Category: Countries (Cities)'' 0 \<and>
       emptyState_text (snd (snd (handleSearch clk s))) =
         ''No recommendations found for that search.''"
      using r
      by (simp add: handleSearch_CountryTier [OF r d k] no_countries_lookups [OF n]
          renderRecommendations_results renderRecommendations_empty_state
          setResultsHeader_shown truthy_def template_def)
  qed
  from 1 2 3 4 5 show ?thesis by blast
qed

theorem missing_fields_default_witness:
  "apiData (sample_page\<lparr>apiData := Some sample_data, searchInput := ''Temples''\<rparr>) =
     Some sample_data \<and>
   temples sample_data = None \<and>
   normalizeKeyword (trim ''Temples'') = ''temple'' \<and>
   fst (handleSearch sample_clock
     (sample_page\<lparr>apiData := Some sample_data, searchInput := ''Temples''\<rparr>)) = TempleTier \<and>
   fst (snd (handleSearch sample_clock
     (sample_page\<lparr>apiData := Some sample_data, searchInput := ''Temples''\<rparr>))) = Returned \<and>
   results (snd (snd (handleSearch sample_clock
     (sample_page\<lparr>apiData := Some sample_data, searchInput := ''Temples''\<rparr>)))) = [] \<and>
   apiData (sample_page\<lparr>apiData := Some sample_data_bare, searchInput := ''beach''\<rparr>) =
     Some sample_data_bare \<and>
   beaches sample_data_bare = None \<and>
   normalizeKeyword (trim ''beach'') = ''beach'' \<and>
   fst (handleSearch sample_clock
     (sample_page\<lparr>apiData := Some sample_data_bare, searchInput := ''beach''\<rparr>)) = BeachTier \<and>
   resultsMeta (snd (snd (handleSearch sample_clock
     (sample_page\<lparr>apiData := Some sample_data_bare, searchInput := ''beach''\<rparr>)))) =
     Meta ''Category: Beaches'' 0 \<and>
   apiData (sample_page\<lparr>apiData := Some sample_data_no_countries,
     searchInput := ''countries''\<rparr>) = Some sample_data_no_countries \<and>
   normalizeKeyword (trim ''countries'') = ''country'' \<and>
   fst (handleSearch sample_clock
     (sample_page\<lparr>apiData := Some sample_data_no_countries, searchInput := ''countries''\<rparr>)) =
     CountryTier \<and>
   fst (snd (handleSearch sample_clock
     (sample_page\<lparr>apiData := Some sample_data_no_countries, searchInput := ''countries''\<rparr>))) =
     Returned \<and>
   apiData (sample_page\<lparr>apiData := Some sample_data_no_countries, searchInput := ''japan''\<rparr>) =
     Some sample_data_no_countries \<and>
   countries sample_data_no_countries = None \<and>
   fst (snd (handleSearch sample_clock
     (sample_page\<lparr>apiData := Some sample_data_no_countries, searchInput := ''japan''\<rparr>))) =
     Returned \<and>
   handleSearch sample_clock
     (sample_page\<lparr>apiData := Some (with_defaults sample_data_no_countries),
        searchInput := ''japan''\<rparr>) =
     (NoMatch, Returned,
      (snd (snd (handleSearch sample_clock
         (sample_page\<lparr>apiData := Some sample_data_no_countries, searchInput := ''japan''\<rparr>))))
      \<lparr>apiData := Some (with_defaults sample_data_no_countries)\<rparr>)"
proof -
  let ?s = "sample_page\<lparr>apiData := Some sample_data, searchInput := ''Temples''\<rparr>"
  let ?b = "sample_page\<lparr>apiData := Some sample_data_bare, searchInput := ''beach''\<rparr>"
  let ?c = "sample_page\<lparr>apiData := Some sample_data_no_countries,
     searchInput := ''countries''\<rparr>"
  let ?t = "sample_page\<lparr>apiData := Some sample_data_no_countries, searchInput := ''japan''\<rparr>"
  have a: "apiData ?s = Some sample_data" by simp
  have b: "temples sample_data = None" by (simp add: sample_data_def)
  have k: "normalizeKeyword (trim ''Temples'') = ''temple''" by code_simp
  then have k': "normalizeKeyword (trim (searchInput ?s)) = ''temple''" by simp
  have ab: "apiData ?b = Some sample_data_bare" by simp
  have bb: "beaches sample_data_bare = None" by (simp add: sample_data_bare_def)
  have kb: "normalizeKeyword (trim ''beach'') = ''beach''" by code_simp
  then have kb': "normalizeKeyword (trim (searchInput ?b)) = ''beach''" by simp
  have ac: "apiData ?c = Some sample_data_no_countries" by simp
  have kc: "normalizeKeyword (trim ''countries'') = ''country''" by code_simp
  then have kc': "normalizeKeyword (trim (searchInput ?c)) = ''country''" by simp
  have c: "apiData ?t = Some sample_data_no_countries" by simp
  have n: "countries sample_data_no_countries = None" by (simp add: sample_data_no_countries_def)
  have e: "fst (handleSearch sample_clock ?t) = NoMatch" by code_simp
  have u: "?t\<lparr>apiData := Some (with_defaults sample_data_no_countries)\<rparr> =
      sample_page\<lparr>apiData := Some (with_defaults sample_data_no_countries),
        searchInput := ''japan''\<rparr>" by simp
  note w1 = missing_fields_default [OF a, of sample_clock]
  note w2 = missing_fields_default [OF c, of sample_clock]
  note w3 = missing_fields_default [OF ab, of sample_clock]
  note w4 = missing_fields_default [OF ac, of sample_clock]
  have r1: "fst (handleSearch sample_clock ?s) = TempleTier \<and>
       fst (snd (handleSearch sample_clock ?s)) = Returned \<and>
       results (snd (snd (handleSearch sample_clock ?s))) = []"
    using w1 b k' by blast
  have r2: "fst (snd (handleSearch sample_clock ?t)) = Returned"
    using w2 n by blast
  have r3: "handleSearch sample_clock (?t\<lparr>apiData := Some (with_defaults sample_data_no_countries)\<rparr>) =
      (fst (handleSearch sample_clock ?t), fst (snd (handleSearch sample_clock ?t)),
       (snd (snd (handleSearch sample_clock ?t)))
         \<lparr>apiData := Some (with_defaults sample_data_no_countries)\<rparr>)"
    using w2 by blast
  have r4: "fst (handleSearch sample_clock ?b) = BeachTier \<and>
       resultsMeta (snd (snd (handleSearch sample_clock ?b))) = Meta ''Category: Beaches'' 0"
    using w3 bb kb' by blast
  have r5: "fst (handleSearch sample_clock ?c) = CountryTier \<and>
       fst (snd (handleSearch sample_clock ?c)) = Returned"
    using w4 n kc' by blast
  show ?thesis
    using a b k ab bb kb ac kc c n r1 r2 r3 [unfolded u e r2] r4 r5 by simp
qed

end
